theory Spec2Isabelle
  imports Complex_Main "HOL-Library.Log_Nat"
begin

section \<open>Data model (src/lib/types.ts)\<close>

text \<open>
  The pricing functions are given two readings. In the first the TypeScript type
  \<^verbatim>\<open>number\<close> is \<^typ>\<open>real\<close> and the arithmetic is exact; it is used for the
  statements that say which branch is taken and which expression is computed. Every
  division of the source is guarded by a test that its divisor is positive, or divides
  by a non-zero literal, so no quotient of this reading depends on the value HOL gives
  to a division by zero. In the second reading, further below, a \<^verbatim>\<open>number\<close> is an
  IEEE 754 binary64 value with rounding, overflow, infinities, signed zeros and NaN; it
  is used wherever a statement depends on the computed values.
\<close>

text \<open>\<^verbatim>\<open>type Unit = "g" | "kg" | "ml" | "l" | "unit"\<close>\<close>

datatype Unit = G | Kg | Ml | L | Each

text \<open>\<^verbatim>\<open>type UnitSystem = "mass" | "volume" | "unit"\<close>\<close>

datatype UnitSystem = Mass | Volume | UnitCount

record RawMaterialRecord =
  id' :: string
  name :: string
  purchasePrice :: real
  purchaseQuantity :: real
  purchaseUnit :: Unit

record ProductMaterialInput =
  materialId :: string
  quantity :: real
  unit :: Unit

record ProductRecord =
  productId :: string
  productName :: string
  batchSize :: real
  batchUnit :: string
  materials :: "ProductMaterialInput list"
  laborCost :: real
  additionalCost :: real
  targetMargin :: real
  overrideSalePrice :: "real option"

text \<open>
  The optional description, sale price, supplier, tags, notes, currency and the
  timestamps of the source records are left out: no function below reads them.
  The field \<^verbatim>\<open>id\<close> of a material is written \<open>id'\<close>; \<^verbatim>\<open>id\<close> and \<^verbatim>\<open>name\<close> of
  a product are written \<open>productId\<close> and \<open>productName\<close>. The unit \<^verbatim>\<open>"unit"\<close> is
  \<open>Each\<close> and the unit system \<^verbatim>\<open>"unit"\<close> is \<open>UnitCount\<close>.
\<close>

text \<open>The object returned by \<^verbatim>\<open>getMaterialDerivedValues\<close>;
  \<^verbatim>\<open>undefined\<close> is \<open>None\<close>.\<close>

record MaterialDerivedValues =
  unitSystem :: UnitSystem
  baseQuantity :: real
  pricePerBaseUnit :: real
  pricePerGram :: "real option"
  pricePerKilogram :: "real option"
  pricePerMilliliter :: "real option"
  pricePerLiter :: "real option"
  pricePerUnit :: "real option"

text \<open>The object returned by \<^verbatim>\<open>getProductMaterialCost\<close>; the second return
  statement has no \<^verbatim>\<open>warning\<close> property, which reads as \<^verbatim>\<open>undefined\<close>.\<close>

record MaterialCost =
  cost :: real
  valid :: bool
  warning :: "string option"

text \<open>An element of \<^verbatim>\<open>ProductCostResult.breakdown\<close>.\<close>

record BreakdownLine =
  lineMaterialId :: string
  lineCost :: real
  lineQuantity :: real
  lineUnit :: Unit
  lineValid :: bool
  lineWarning :: "string option"

record ProductCostResult =
  totalMaterialCost :: real
  totalCost :: real
  unitCost :: real
  recommendedPrice :: real
  breakdown :: "BreakdownLine list"

section \<open>Unit normalisation\<close>

definition getUnitSystem :: "Unit \<Rightarrow> UnitSystem" where
  "getUnitSystem u =
     (if u = G \<or> u = Kg then Mass
      else if u = Ml \<or> u = L then Volume
      else UnitCount)"

definition convertToBaseUnit :: "real \<Rightarrow> Unit \<Rightarrow> real" where
  "convertToBaseUnit q u =
     (if u = Kg then q * 1000
      else if u = L then q * 1000
      else q)"

section \<open>Cost derivation\<close>

definition getMaterialDerivedValues :: "RawMaterialRecord \<Rightarrow> MaterialDerivedValues" where
  "getMaterialDerivedValues material =
     (let us = getUnitSystem (purchaseUnit material);
          bq = convertToBaseUnit (purchaseQuantity material) (purchaseUnit material);
          ppbu = (if bq > 0 then purchasePrice material / bq else 0)
      in \<lparr> unitSystem = us,
           baseQuantity = bq,
           pricePerBaseUnit = ppbu,
           pricePerGram = (if us = Mass then Some ppbu else None),
           pricePerKilogram = (if us = Mass then Some (ppbu * 1000) else None),
           pricePerMilliliter = (if us = Volume then Some ppbu else None),
           pricePerLiter = (if us = Volume then Some (ppbu * 1000) else None),
           pricePerUnit =
             (if us = UnitCount \<and> purchaseQuantity material > 0
              then Some (purchasePrice material / purchaseQuantity material)
              else None) \<rparr>)"

definition warningNotFound :: string where
  "warningNotFound = ''Materia prima no encontrada''"

definition warningIncompatible :: string where
  "warningIncompatible =
     ''Unidad incompatible. Ajusta la unidad de la materia prima o del producto''"

fun getProductMaterialCost ::
  "RawMaterialRecord option \<Rightarrow> ProductMaterialInput \<Rightarrow> MaterialCost" where
  "getProductMaterialCost None requirement =
     \<lparr> cost = 0, valid = False, warning = Some warningNotFound \<rparr>"
| "getProductMaterialCost (Some material) requirement =
     (let derived = getMaterialDerivedValues material;
          requirementSystem = getUnitSystem (unit requirement)
      in if unitSystem derived \<noteq> requirementSystem
         then \<lparr> cost = 0, valid = False, warning = Some warningIncompatible \<rparr>
         else let requirementBaseQuantity =
                    convertToBaseUnit (quantity requirement) (unit requirement)
              in \<lparr> cost = pricePerBaseUnit derived * requirementBaseQuantity,
                   valid = True, warning = None \<rparr>)"

text \<open>
  \<^verbatim>\<open>new Map(materials.map((item) => [item.id, item]))\<close> inserts the entries in list
  order, a later entry replacing an earlier one with the same key;
  \<^verbatim>\<open>Map.get\<close> returns \<^verbatim>\<open>undefined\<close> for a missing key.
\<close>

definition materialDictionary ::
  "RawMaterialRecord list \<Rightarrow> (string \<rightharpoonup> RawMaterialRecord)" where
  "materialDictionary ms = foldl (\<lambda>d item. d(id' item \<mapsto> item)) Map.empty ms"

text \<open>The callback of \<^verbatim>\<open>product.materials.map\<close> in \<^verbatim>\<open>calculateProductCosts\<close>.\<close>

definition breakdownLine ::
  "(string \<rightharpoonup> RawMaterialRecord) \<Rightarrow> ProductMaterialInput \<Rightarrow> BreakdownLine" where
  "breakdownLine d item =
     (let material = d (materialId item);
          result = getProductMaterialCost material item
      in \<lparr> lineMaterialId = materialId item,
           lineCost = cost result,
           lineQuantity = quantity item,
           lineUnit = unit item,
           lineValid = valid result,
           lineWarning = warning result \<rparr>)"

definition calculateProductCosts ::
  "ProductRecord \<Rightarrow> RawMaterialRecord list \<Rightarrow> ProductCostResult" where
  "calculateProductCosts product ms =
     (let d = materialDictionary ms;
          bd = map (breakdownLine d) (materials product);
          tmc = foldl (\<lambda>sum item. sum + lineCost item) 0 bd;
          tc = tmc + laborCost product + additionalCost product;
          uc = (if batchSize product > 0 then tc / batchSize product else tc);
          rp = (if targetMargin product > 0
                then uc * (1 + targetMargin product / 100) else uc)
      in \<lparr> totalMaterialCost = tmc,
           totalCost = tc,
           unitCost = uc,
           recommendedPrice = rp,
           breakdown = bd \<rparr>)"

section \<open>Binary64 arithmetic\<close>

text \<open>
  At run time a \<^verbatim>\<open>number\<close> is an IEEE 754 binary64 value and \<^verbatim>\<open>+\<close>, \<^verbatim>\<open>-\<close>,
  \<^verbatim>\<open>*\<close>, \<^verbatim>\<open>/\<close> return the exact result rounded to the nearest representable value,
  ties to even.
  A value is NaN, or a sign (\<open>True\<close> for negative) with a magnitude that is infinite
  or a non-negative rational; \<open>Num True (Fin 0)\<close> is the negative zero.
\<close>

datatype magnitude = Fin rat | Infty

datatype f64 = NaN | Num bool magnitude

definition pow2 :: "int \<Rightarrow> rat" where
  "pow2 e = (if e \<ge> 0 then 2 ^ nat e else 1 / 2 ^ nat (- e))"

text \<open>
  For \<open>x > 0\<close>, the exponent \<open>e\<close> with \<open>2\<^sup>e \<le> x < 2\<^sup>e\<^sup>+\<^sup>1\<close>: with \<open>x = a / b\<close>
  in lowest terms, \<open>e\<close> is the difference of the bit lengths of \<open>a\<close> and \<open>b\<close>, or one less.
\<close>

definition ilog2 :: "rat \<Rightarrow> int" where
  "ilog2 x =
     (let (a, b) = quotient_of x;
          k = bitlen a - bitlen b
      in if pow2 k \<le> x then k else k - 1)"

definition roundHalfEven :: "rat \<Rightarrow> int" where
  "roundHalfEven y =
     (let f = \<lfloor>y\<rfloor>; d = y - of_int f
      in if d < 1 / 2 then f
         else if d > 1 / 2 then f + 1
         else if even f then f else f + 1)"

text \<open>
  Rounding of a non-negative rational: the significand has 53 bits, the least exponent
  is \<open>-1022\<close> (below it the spacing stays \<open>2\<^sup>-\<^sup>1\<^sup>0\<^sup>7\<^sup>4\<close>, the subnormal range), and a
  rounded value of \<open>2\<^sup>1\<^sup>0\<^sup>2\<^sup>4\<close> or more is infinite.
\<close>

definition round64 :: "rat \<Rightarrow> magnitude" where
  "round64 x =
     (if x = 0 then Fin 0
      else let e = max (ilog2 x) (- 1022);
               u = pow2 (e - 52);
               r = of_int (roundHalfEven (x / u)) * u
           in if r \<ge> pow2 1024 then Infty else Fin r)"

text \<open>A finite magnitude is a binary64 value when rounding leaves it unchanged.\<close>

fun is_f64 :: "f64 \<Rightarrow> bool" where
  "is_f64 (Num s (Fin x)) = (0 \<le> x \<and> round64 x = Fin x)"
| "is_f64 _ = True"

text \<open>Multiplication and division, with the special cases of IEEE 754.\<close>

fun fmul :: "f64 \<Rightarrow> f64 \<Rightarrow> f64" where
  "fmul (Num s (Fin x)) (Num t (Fin y)) = Num (s \<noteq> t) (round64 (x * y))"
| "fmul (Num s (Fin x)) (Num t Infty) = (if x = 0 then NaN else Num (s \<noteq> t) Infty)"
| "fmul (Num s Infty) (Num t (Fin y)) = (if y = 0 then NaN else Num (s \<noteq> t) Infty)"
| "fmul (Num s Infty) (Num t Infty) = Num (s \<noteq> t) Infty"
| "fmul _ _ = NaN"

fun fdiv :: "f64 \<Rightarrow> f64 \<Rightarrow> f64" where
  "fdiv (Num s (Fin x)) (Num t (Fin y)) =
     (if y = 0 then (if x = 0 then NaN else Num (s \<noteq> t) Infty)
      else Num (s \<noteq> t) (round64 (x / y)))"
| "fdiv (Num s (Fin x)) (Num t Infty) = Num (s \<noteq> t) (Fin 0)"
| "fdiv (Num s Infty) (Num t (Fin y)) = Num (s \<noteq> t) Infty"
| "fdiv _ _ = NaN"


text \<open>The bounds \<open>1 - 2\<^sup>-\<^sup>5\<^sup>3\<close> and \<open>1 + 2\<^sup>-\<^sup>5\<^sup>3\<close> of the relative rounding error.\<close>

definition e0 :: rat where "e0 = 1 - 1 / 2 ^ 53"

definition e1 :: rat where "e1 = 1 + 1 / 2 ^ 53"

text \<open>A numeric literal of the source, such as \<^verbatim>\<open>0\<close>, \<^verbatim>\<open>1\<close>, \<^verbatim>\<open>100\<close> or \<^verbatim>\<open>1000\<close>.\<close>

definition fnum :: "rat \<Rightarrow> f64" where
  "fnum c = Num False (Fin c)"

text \<open>
  Negation, addition and subtraction. An exact sum of zero is \<open>-0\<close> only when both
  operands are negative (then both are zeros), and \<open>+0\<close> otherwise.
\<close>

fun fneg :: "f64 \<Rightarrow> f64" where
  "fneg (Num s a) = Num (\<not> s) a"
| "fneg NaN = NaN"

fun fadd :: "f64 \<Rightarrow> f64 \<Rightarrow> f64" where
  "fadd (Num s (Fin x)) (Num t (Fin y)) =
     (let z = (if s then - x else x) + (if t then - y else y)
      in if z = 0 then Num (s \<and> t) (Fin 0) else Num (z < 0) (round64 \<bar>z\<bar>))"
| "fadd (Num s (Fin x)) (Num t Infty) = Num t Infty"
| "fadd (Num s Infty) (Num t (Fin y)) = Num s Infty"
| "fadd (Num s Infty) (Num t Infty) = (if s = t then Num s Infty else NaN)"
| "fadd _ _ = NaN"

definition fsub :: "f64 \<Rightarrow> f64 \<Rightarrow> f64" where
  "fsub a b = fadd a (fneg b)"

text \<open>
  The comparisons \<^verbatim>\<open>>\<close> and \<^verbatim>\<open><=\<close> (false when an operand is NaN; the two zeros
  are equal), strict equality \<^verbatim>\<open>===\<close> and \<^verbatim>\<open>Number.isFinite\<close>.
\<close>

fun mlt :: "magnitude \<Rightarrow> magnitude \<Rightarrow> bool" where
  "mlt (Fin x) (Fin y) = (x < y)"
| "mlt (Fin x) Infty = True"
| "mlt Infty b = False"

fun fgt :: "f64 \<Rightarrow> f64 \<Rightarrow> bool" where
  "fgt (Num s a) (Num t b) =
     (if s then (if t then mlt a b else False)
      else (if t then a \<noteq> Fin 0 \<or> b \<noteq> Fin 0 else mlt b a))"
| "fgt _ _ = False"

fun fle :: "f64 \<Rightarrow> f64 \<Rightarrow> bool" where
  "fle (Num s a) (Num t b) = (\<not> fgt (Num s a) (Num t b))"
| "fle _ _ = False"

fun strictEq :: "f64 \<Rightarrow> f64 \<Rightarrow> bool" where
  "strictEq (Num s a) (Num t b) = (a = b \<and> (s = t \<or> a = Fin 0))"
| "strictEq _ _ = False"

fun isFinite :: "f64 \<Rightarrow> bool" where
  "isFinite (Num s (Fin x)) = True"
| "isFinite _ = False"

section \<open>The pricing functions in binary64 arithmetic\<close>

text \<open>
  The same source text as above, with \<^verbatim>\<open>number\<close> read as a binary64 value. Records,
  fields and functions carry the suffix \<open>64\<close>.
\<close>

definition convertToBaseUnit64 :: "f64 \<Rightarrow> Unit \<Rightarrow> f64" where
  "convertToBaseUnit64 q u =
     (if u = Kg then fmul q (Num False (Fin 1000))
      else if u = L then fmul q (Num False (Fin 1000))
      else q)"


record RawMaterialRecord64 =
  id64 :: string
  name64 :: string
  purchasePrice64 :: f64
  purchaseQuantity64 :: f64
  purchaseUnit64 :: Unit

record ProductMaterialInput64 =
  materialId64 :: string
  quantity64 :: f64
  unit64 :: Unit

record ProductRecord64 =
  productId64 :: string
  productName64 :: string
  batchSize64 :: f64
  batchUnit64 :: string
  materials64 :: "ProductMaterialInput64 list"
  laborCost64 :: f64
  additionalCost64 :: f64
  targetMargin64 :: f64
  overrideSalePrice64 :: "f64 option"

record MaterialDerivedValues64 =
  unitSystem64 :: UnitSystem
  baseQuantity64 :: f64
  pricePerBaseUnit64 :: f64
  pricePerGram64 :: "f64 option"
  pricePerKilogram64 :: "f64 option"
  pricePerMilliliter64 :: "f64 option"
  pricePerLiter64 :: "f64 option"
  pricePerUnit64 :: "f64 option"

record MaterialCost64 =
  cost64 :: f64
  valid64 :: bool
  warning64 :: "string option"

record BreakdownLine64 =
  lineMaterialId64 :: string
  lineCost64 :: f64
  lineQuantity64 :: f64
  lineUnit64 :: Unit
  lineValid64 :: bool
  lineWarning64 :: "string option"

record ProductCostResult64 =
  totalMaterialCost64 :: f64
  totalCost64 :: f64
  unitCost64 :: f64
  recommendedPrice64 :: f64
  breakdown64 :: "BreakdownLine64 list"

definition getMaterialDerivedValues64 ::
  "RawMaterialRecord64 \<Rightarrow> MaterialDerivedValues64" where
  "getMaterialDerivedValues64 material =
     (let us = getUnitSystem (purchaseUnit64 material);
          bq = convertToBaseUnit64 (purchaseQuantity64 material) (purchaseUnit64 material);
          ppbu = (if fgt bq (fnum 0) then fdiv (purchasePrice64 material) bq else fnum 0)
      in \<lparr> unitSystem64 = us,
           baseQuantity64 = bq,
           pricePerBaseUnit64 = ppbu,
           pricePerGram64 = (if us = Mass then Some ppbu else None),
           pricePerKilogram64 = (if us = Mass then Some (fmul ppbu (fnum 1000)) else None),
           pricePerMilliliter64 = (if us = Volume then Some ppbu else None),
           pricePerLiter64 = (if us = Volume then Some (fmul ppbu (fnum 1000)) else None),
           pricePerUnit64 =
             (if us = UnitCount \<and> fgt (purchaseQuantity64 material) (fnum 0)
              then Some (fdiv (purchasePrice64 material) (purchaseQuantity64 material))
              else None) \<rparr>)"

fun getProductMaterialCost64 ::
  "RawMaterialRecord64 option \<Rightarrow> ProductMaterialInput64 \<Rightarrow> MaterialCost64" where
  "getProductMaterialCost64 None requirement =
     \<lparr> cost64 = (fnum 0), valid64 = False, warning64 = Some warningNotFound \<rparr>"
| "getProductMaterialCost64 (Some material) requirement =
     (let derived = getMaterialDerivedValues64 material;
          requirementSystem = getUnitSystem (unit64 requirement)
      in if unitSystem64 derived \<noteq> requirementSystem
         then \<lparr> cost64 = (fnum 0), valid64 = False, warning64 = Some warningIncompatible \<rparr>
         else let requirementBaseQuantity =
                    convertToBaseUnit64 (quantity64 requirement) (unit64 requirement)
              in \<lparr> cost64 = fmul (pricePerBaseUnit64 derived) requirementBaseQuantity,
                   valid64 = True, warning64 = None \<rparr>)"

definition materialDictionary64 ::
  "RawMaterialRecord64 list \<Rightarrow> (string \<rightharpoonup> RawMaterialRecord64)" where
  "materialDictionary64 ms = foldl (\<lambda>d item. d(id64 item \<mapsto> item)) Map.empty ms"

definition breakdownLine64 ::
  "(string \<rightharpoonup> RawMaterialRecord64) \<Rightarrow> ProductMaterialInput64 \<Rightarrow> BreakdownLine64" where
  "breakdownLine64 d item =
     (let material = d (materialId64 item);
          result = getProductMaterialCost64 material item
      in \<lparr> lineMaterialId64 = materialId64 item,
           lineCost64 = cost64 result,
           lineQuantity64 = quantity64 item,
           lineUnit64 = unit64 item,
           lineValid64 = valid64 result,
           lineWarning64 = warning64 result \<rparr>)"

definition calculateProductCosts64 ::
  "ProductRecord64 \<Rightarrow> RawMaterialRecord64 list \<Rightarrow> ProductCostResult64" where
  "calculateProductCosts64 product ms =
     (let d = materialDictionary64 ms;
          bd = map (breakdownLine64 d) (materials64 product);
          tmc = foldl (\<lambda>sum item. fadd sum (lineCost64 item)) (fnum 0) bd;
          tc = fadd (fadd tmc (laborCost64 product)) (additionalCost64 product);
          uc = (if fgt (batchSize64 product) (fnum 0) then fdiv tc (batchSize64 product) else tc);
          rp = (if fgt (targetMargin64 product) (fnum 0)
                then fmul uc (fadd (fnum 1) (fdiv (targetMargin64 product) (fnum 100)))
                else uc)
      in \<lparr> totalMaterialCost64 = tmc,
           totalCost64 = tc,
           unitCost64 = uc,
           recommendedPrice64 = rp,
           breakdown64 = bd \<rparr>)"

text \<open>
  The presentation layer (src/app/page.tsx, \<^verbatim>\<open>productsWithDerived\<close>):
  \<open>productWithDerived64\<close> is the callback of \<^verbatim>\<open>products.map\<close>; the copied fields of
  the product (\<^verbatim>\<open>...product\<close>) are left out. The operator \<^verbatim>\<open>??\<close> takes the
  recommended price when the override is \<^verbatim>\<open>undefined\<close>.
\<close>

record ProductWithDerived64 =
  costs64 :: ProductCostResult64
  salePrice64 :: f64
  margin64 :: f64
  hasWarnings64 :: bool

definition productWithDerived64 ::
  "RawMaterialRecord64 list \<Rightarrow> ProductRecord64 \<Rightarrow> ProductWithDerived64" where
  "productWithDerived64 rawMaterials product =
     (let cs = calculateProductCosts64 product rawMaterials;
          sp = (case overrideSalePrice64 product of
                  None \<Rightarrow> recommendedPrice64 cs
                | Some p \<Rightarrow> p);
          mg = (if fgt sp (fnum 0)
                then fmul (fdiv (fsub sp (unitCost64 cs)) sp) (fnum 100)
                else fnum 0)
      in \<lparr> costs64 = cs,
           salePrice64 = sp,
           margin64 = mg,
           hasWarnings64 = list_ex (\<lambda>item. \<not> lineValid64 item) (breakdown64 cs) \<rparr>)"

definition productsWithDerived64 ::
  "ProductRecord64 list \<Rightarrow> RawMaterialRecord64 list \<Rightarrow> ProductWithDerived64 list" where
  "productsWithDerived64 products rawMaterials =
     map (productWithDerived64 rawMaterials) products"

section \<open>Example records\<close>

text \<open>The material and the product of the pricing scenario, and variations of them.\<close>

definition exampleMaterial :: RawMaterialRecord where
  "exampleMaterial =
     \<lparr> id' = ''m1'', name = ''aceite'', purchasePrice = 1000, purchaseQuantity = 1,
       purchaseUnit = Kg \<rparr>"

definition exampleRequirement :: ProductMaterialInput where
  "exampleRequirement = \<lparr> materialId = ''m1'', quantity = 500, unit = G \<rparr>"

definition exampleProduct :: ProductRecord where
  "exampleProduct =
     \<lparr> productId = ''p1'', productName = ''jabon'', batchSize = 10, batchUnit = ''unidades'',
       materials = [exampleRequirement],
       laborCost = 200, additionalCost = 50, targetMargin = 40,
       overrideSalePrice = None \<rparr>"

definition exampleMaterial64 :: RawMaterialRecord64 where
  "exampleMaterial64 =
     \<lparr> id64 = ''m1'', name64 = ''aceite'', purchasePrice64 = fnum 1000,
       purchaseQuantity64 = fnum 1, purchaseUnit64 = Kg \<rparr>"

definition exampleRequirement64 :: ProductMaterialInput64 where
  "exampleRequirement64 = \<lparr> materialId64 = ''m1'', quantity64 = fnum 500, unit64 = G \<rparr>"

definition exampleProduct64 :: ProductRecord64 where
  "exampleProduct64 =
     \<lparr> productId64 = ''p1'', productName64 = ''jabon'', batchSize64 = fnum 10,
       batchUnit64 = ''unidades'', materials64 = [exampleRequirement64],
       laborCost64 = fnum 200, additionalCost64 = fnum 50, targetMargin64 = fnum 40,
       overrideSalePrice64 = None \<rparr>"

section \<open>Auxiliary facts\<close>

lemmas example_defs = exampleMaterial_def exampleRequirement_def exampleProduct_def

lemmas engine_defs = calculateProductCosts_def breakdownLine_def materialDictionary_def
  getMaterialDerivedValues_def getUnitSystem_def convertToBaseUnit_def Let_def



lemma unitSystem_derived:
  "unitSystem (getMaterialDerivedValues m) = getUnitSystem (purchaseUnit m)"
  by (simp add: getMaterialDerivedValues_def Let_def)




section \<open>The pricing scenario\<close>

text \<open>
  Claim C1. A material bought at 1000 for 1 kilogram has price per kilogram 1000 and
  price per gram 1. A product whose only requirement is 500 grams of that material,
  with batch size 10, labour cost 200, additional cost 50 and target margin 40, has
  total material cost 500, total cost 750, unit cost 75 and recommended price 105.
  The identifiers, names, batch unit and override price are arbitrary.
\<close>

theorem scenario_pricing:
  "getMaterialDerivedValues
       \<lparr> id' = mid, name = mname, purchasePrice = 1000, purchaseQuantity = 1,
         purchaseUnit = Kg \<rparr>
     = \<lparr> unitSystem = Mass, baseQuantity = 1000, pricePerBaseUnit = 1,
         pricePerGram = Some 1, pricePerKilogram = Some 1000,
         pricePerMilliliter = None, pricePerLiter = None, pricePerUnit = None \<rparr>
   \<and> calculateProductCosts
       \<lparr> productId = pid, productName = pname, batchSize = 10, batchUnit = bu,
         materials = [\<lparr> materialId = mid, quantity = 500, unit = G \<rparr>],
         laborCost = 200, additionalCost = 50, targetMargin = 40,
         overrideSalePrice = ov \<rparr>
       [\<lparr> id' = mid, name = mname, purchasePrice = 1000, purchaseQuantity = 1,
          purchaseUnit = Kg \<rparr>]
     = \<lparr> totalMaterialCost = 500, totalCost = 750, unitCost = 75, recommendedPrice = 105,
         breakdown = [\<lparr> lineMaterialId = mid, lineCost = 500, lineQuantity = 500,
                         lineUnit = G, lineValid = True, lineWarning = None \<rparr>] \<rparr>"
  by (simp add: getMaterialDerivedValues_def calculateProductCosts_def breakdownLine_def
        materialDictionary_def getUnitSystem_def convertToBaseUnit_def)

section \<open>Cost of one requirement\<close>

text \<open>
  Claim C4. \<^verbatim>\<open>getProductMaterialCost\<close> returns cost 0, valid false and a warning exactly
  when the material is absent or the unit system of the requirement differs from the
  one of the material's purchase unit. Otherwise it returns valid true, no warning, and
  as cost the material's price per base unit times the requirement's quantity in base
  units, whatever the quantities are. The function has no failing branch: every case
  returns a record.
\<close>

theorem getProductMaterialCost_cases:
  "((cost (getProductMaterialCost mo r) = 0 \<and> \<not> valid (getProductMaterialCost mo r)
       \<and> warning (getProductMaterialCost mo r) \<noteq> None)
     \<longleftrightarrow> (mo = None
          \<or> (\<exists>m. mo = Some m
                 \<and> getUnitSystem (unit r) \<noteq> getUnitSystem (purchaseUnit m))))
   \<and> (\<forall>m. mo = Some m \<and> getUnitSystem (unit r) = getUnitSystem (purchaseUnit m) \<longrightarrow>
         getProductMaterialCost mo r =
           \<lparr> cost = pricePerBaseUnit (getMaterialDerivedValues m)
                     * convertToBaseUnit (quantity r) (unit r),
             valid = True, warning = None \<rparr>)"
proof (cases mo)
  case None
  then show ?thesis by simp
next
  case (Some m)
  show ?thesis
  proof (cases "getUnitSystem (unit r) = getUnitSystem (purchaseUnit m)")
    case True
    with Some show ?thesis by (simp add: Let_def unitSystem_derived)
  next
    case False
    with Some show ?thesis by (simp add: Let_def unitSystem_derived)
  qed
qed

theorem getProductMaterialCost_cases_witness:
  "getProductMaterialCost None exampleRequirement
       = \<lparr> cost = 0, valid = False, warning = Some warningNotFound \<rparr>
   \<and> getUnitSystem (unit (exampleRequirement\<lparr>unit := Ml\<rparr>))
        \<noteq> getUnitSystem (purchaseUnit exampleMaterial)
   \<and> getProductMaterialCost (Some exampleMaterial) (exampleRequirement\<lparr>unit := Ml\<rparr>)
       = \<lparr> cost = 0, valid = False, warning = Some warningIncompatible \<rparr>
   \<and> getUnitSystem (unit exampleRequirement) = getUnitSystem (purchaseUnit exampleMaterial)
   \<and> getProductMaterialCost (Some exampleMaterial) exampleRequirement
       = \<lparr> cost = 500, valid = True, warning = None \<rparr>
   \<and> getProductMaterialCost (Some exampleMaterial)
        (exampleRequirement\<lparr>quantity := - 2, unit := Kg\<rparr>)
       = \<lparr> cost = - 2000, valid = True, warning = None \<rparr>"
  using getProductMaterialCost_cases [of None exampleRequirement]
    getProductMaterialCost_cases [of "Some exampleMaterial" "exampleRequirement\<lparr>unit := Ml\<rparr>"]
    getProductMaterialCost_cases [of "Some exampleMaterial" exampleRequirement]
    getProductMaterialCost_cases
      [of "Some exampleMaterial" "exampleRequirement\<lparr>quantity := - 2, unit := Kg\<rparr>"]
  by (simp add: example_defs engine_defs)

section \<open>Totals of a product\<close>



section \<open>Unit cost\<close>



section \<open>Derived values of a material\<close>

text \<open>
  Claim C7. The price per base unit of a material is its purchase price divided by its
  purchase quantity in base units when that quantity is positive, and 0 when it is
  zero or negative; the division is only evaluated under that guard.
\<close>

theorem pricePerBaseUnit_guard:
  "pricePerBaseUnit (getMaterialDerivedValues m) =
     (if convertToBaseUnit (purchaseQuantity m) (purchaseUnit m) > 0
      then purchasePrice m / convertToBaseUnit (purchaseQuantity m) (purchaseUnit m)
      else 0)
   \<and> baseQuantity (getMaterialDerivedValues m)
       = convertToBaseUnit (purchaseQuantity m) (purchaseUnit m)
   \<and> (convertToBaseUnit (purchaseQuantity m) (purchaseUnit m) \<le> 0 \<longrightarrow>
        pricePerBaseUnit (getMaterialDerivedValues m) = 0)"
  by (simp add: getMaterialDerivedValues_def Let_def)

theorem pricePerBaseUnit_guard_witness:
  "convertToBaseUnit (purchaseQuantity exampleMaterial) (purchaseUnit exampleMaterial) = 1000
   \<and> pricePerBaseUnit (getMaterialDerivedValues exampleMaterial) = 1000 / 1000
   \<and> convertToBaseUnit (purchaseQuantity (exampleMaterial\<lparr>purchaseQuantity := 0\<rparr>))
        (purchaseUnit (exampleMaterial\<lparr>purchaseQuantity := 0\<rparr>)) \<le> 0
   \<and> pricePerBaseUnit (getMaterialDerivedValues (exampleMaterial\<lparr>purchaseQuantity := 0\<rparr>))
        = 0"
  using pricePerBaseUnit_guard [of exampleMaterial]
    pricePerBaseUnit_guard [of "exampleMaterial\<lparr>purchaseQuantity := 0\<rparr>"]
  by (simp add: example_defs engine_defs)

text \<open>
  Claim C8. Only the convenience prices of the material's own unit system are present.
  Mass: price per gram is the price per base unit, price per kilogram is 1000 times it.
  Volume: price per millilitre is the price per base unit, price per litre is 1000
  times it. Count: price per unit is purchase price divided by purchase quantity when
  the purchase quantity is positive, and absent otherwise. The fields of the other
  systems are absent (\<open>None\<close>), not zero.
\<close>

theorem convenience_fields_own_system:
  "(getUnitSystem (purchaseUnit m) = Mass \<longrightarrow>
      pricePerGram (getMaterialDerivedValues m)
        = Some (pricePerBaseUnit (getMaterialDerivedValues m))
    \<and> pricePerKilogram (getMaterialDerivedValues m)
        = Some (pricePerBaseUnit (getMaterialDerivedValues m) * 1000)
    \<and> pricePerMilliliter (getMaterialDerivedValues m) = None
    \<and> pricePerLiter (getMaterialDerivedValues m) = None
    \<and> pricePerUnit (getMaterialDerivedValues m) = None)
   \<and> (getUnitSystem (purchaseUnit m) = Volume \<longrightarrow>
      pricePerMilliliter (getMaterialDerivedValues m)
        = Some (pricePerBaseUnit (getMaterialDerivedValues m))
    \<and> pricePerLiter (getMaterialDerivedValues m)
        = Some (pricePerBaseUnit (getMaterialDerivedValues m) * 1000)
    \<and> pricePerGram (getMaterialDerivedValues m) = None
    \<and> pricePerKilogram (getMaterialDerivedValues m) = None
    \<and> pricePerUnit (getMaterialDerivedValues m) = None)
   \<and> (getUnitSystem (purchaseUnit m) = UnitCount \<longrightarrow>
      pricePerUnit (getMaterialDerivedValues m) =
        (if purchaseQuantity m > 0 then Some (purchasePrice m / purchaseQuantity m)
         else None)
    \<and> pricePerGram (getMaterialDerivedValues m) = None
    \<and> pricePerKilogram (getMaterialDerivedValues m) = None
    \<and> pricePerMilliliter (getMaterialDerivedValues m) = None
    \<and> pricePerLiter (getMaterialDerivedValues m) = None)"
  by (simp add: getMaterialDerivedValues_def Let_def)

theorem convenience_fields_own_system_witness:
  "getUnitSystem (purchaseUnit exampleMaterial) = Mass
   \<and> pricePerGram (getMaterialDerivedValues exampleMaterial) = Some 1
   \<and> pricePerKilogram (getMaterialDerivedValues exampleMaterial) = Some 1000
   \<and> pricePerMilliliter (getMaterialDerivedValues exampleMaterial) = None
   \<and> pricePerLiter (getMaterialDerivedValues exampleMaterial) = None
   \<and> pricePerUnit (getMaterialDerivedValues exampleMaterial) = None
   \<and> getUnitSystem (purchaseUnit (exampleMaterial\<lparr>purchaseQuantity := 2, purchaseUnit := L\<rparr>))
        = Volume
   \<and> pricePerMilliliter
        (getMaterialDerivedValues (exampleMaterial\<lparr>purchaseQuantity := 2, purchaseUnit := L\<rparr>))
        = Some (1 / 2)
   \<and> pricePerLiter
        (getMaterialDerivedValues (exampleMaterial\<lparr>purchaseQuantity := 2, purchaseUnit := L\<rparr>))
        = Some 500
   \<and> pricePerGram
        (getMaterialDerivedValues (exampleMaterial\<lparr>purchaseQuantity := 2, purchaseUnit := L\<rparr>))
        = None
   \<and> getUnitSystem
        (purchaseUnit (exampleMaterial\<lparr>purchaseQuantity := 8, purchaseUnit := Each\<rparr>))
        = UnitCount
   \<and> pricePerUnit
        (getMaterialDerivedValues (exampleMaterial\<lparr>purchaseQuantity := 8, purchaseUnit := Each\<rparr>))
        = Some 125
   \<and> pricePerLiter
        (getMaterialDerivedValues (exampleMaterial\<lparr>purchaseQuantity := 8, purchaseUnit := Each\<rparr>))
        = None
   \<and> pricePerUnit
        (getMaterialDerivedValues (exampleMaterial\<lparr>purchaseQuantity := 0, purchaseUnit := Each\<rparr>))
        = None"
  using convenience_fields_own_system [of exampleMaterial]
    convenience_fields_own_system
      [of "exampleMaterial\<lparr>purchaseQuantity := 2, purchaseUnit := L\<rparr>"]
    convenience_fields_own_system
      [of "exampleMaterial\<lparr>purchaseQuantity := 8, purchaseUnit := Each\<rparr>"]
    convenience_fields_own_system
      [of "exampleMaterial\<lparr>purchaseQuantity := 0, purchaseUnit := Each\<rparr>"]
  by (simp add: example_defs engine_defs)

section \<open>Facts about binary64 rounding\<close>

subsection \<open>Powers of two and the exponent\<close>

lemma pow2_powi: "pow2 e = 2 powi e"
  by (simp add: pow2_def power_int_def power_one_over inverse_eq_divide flip: power_inverse)

lemma pow2_pos: "0 < pow2 e"
  by (simp add: pow2_def)

lemma pow2_strict_mono: "a < b \<Longrightarrow> pow2 a < pow2 b"
  unfolding pow2_powi by (rule power_int_strict_increasing) simp_all

lemma pow2_mono: "a \<le> b \<Longrightarrow> pow2 a \<le> pow2 b"
  unfolding pow2_powi by (rule power_int_increasing) simp_all

lemma pow2_diff: "pow2 (a - b) = pow2 a / pow2 b"
  unfolding pow2_powi by (simp add: power_int_diff)

lemma pow2_nat: "0 \<le> e \<Longrightarrow> pow2 e = 2 ^ nat e"
  by (simp add: pow2_def)

lemma pow2_unique:
  assumes "pow2 e \<le> x" "x < pow2 (e + 1)" "pow2 e' \<le> x" "x < pow2 (e' + 1)"
  shows "e = e'"
proof (rule ccontr)
  assume "e \<noteq> e'"
  then consider "e + 1 \<le> e'" | "e' + 1 \<le> e" by linarith
  then show False
  proof cases
    case 1
    from pow2_mono [OF 1] assms show False by linarith
  next
    case 2
    from pow2_mono [OF 2] assms show False by linarith
  qed
qed

lemma bitlen_pos: "0 < a \<Longrightarrow> 1 \<le> bitlen a"
  by (simp add: bitlen_alt_def)

lemma of_int_bitlen_bounds:
  assumes "0 < a"
  shows "pow2 (bitlen a - 1) \<le> of_int a" and "of_int a < pow2 (bitlen a)"
proof -
  have b: "1 \<le> bitlen a" using assms by (rule bitlen_pos)
  from bitlen_bounds [OF assms]
  have l: "2 ^ nat (bitlen a - 1) \<le> a" and u: "a < 2 ^ nat (bitlen a)" by simp_all
  have "(of_int (2 ^ nat (bitlen a - 1)) :: rat) \<le> of_int a"
    using l by (simp only: of_int_le_iff)
  then show "pow2 (bitlen a - 1) \<le> of_int a"
    using b by (simp add: pow2_nat)
  have "(of_int a :: rat) < of_int (2 ^ nat (bitlen a))"
    using u by (simp only: of_int_less_iff)
  then show "of_int a < pow2 (bitlen a)"
    using b by (simp add: pow2_nat)
qed

lemma ilog2_bounds:
  assumes "0 < x"
  shows "pow2 (ilog2 x) \<le> x \<and> x < pow2 (ilog2 x + 1)"
proof -
  obtain a b where q: "quotient_of x = (a, b)" by (cases "quotient_of x")
  have b: "0 < b" using q by (rule quotient_of_denom_pos)
  have x: "x = of_int a / of_int b" using q by (rule quotient_of_div)
  have a: "0 < a" using assms b unfolding x by (simp add: zero_less_divide_iff)
  let ?k = "bitlen a - bitlen b"
  note ba = of_int_bitlen_bounds [OF a] and bb = of_int_bitlen_bounds [OF b]
  have bpos: "(0::rat) < of_int b" using b by simp
  have "x < pow2 (bitlen a) / pow2 (bitlen b - 1)"
  proof -
    have "x < pow2 (bitlen a) / of_int b"
      unfolding x using ba(2) bpos by (simp add: divide_strict_right_mono)
    also have "\<dots> \<le> pow2 (bitlen a) / pow2 (bitlen b - 1)"
      using bb(1) pow2_pos [of "bitlen b - 1"] pow2_pos [of "bitlen a"]
      by (simp add: frac_le)
    finally show ?thesis .
  qed
  then have up: "x < pow2 (?k + 1)"
    using pow2_diff [of "bitlen a" "bitlen b - 1"] by (simp add: algebra_simps)
  have "pow2 (bitlen a - 1) / pow2 (bitlen b) < x"
  proof -
    have "pow2 (bitlen a - 1) / pow2 (bitlen b) < pow2 (bitlen a - 1) / of_int b"
      using bb(2) bpos pow2_pos [of "bitlen a - 1"]
      by (simp add: divide_strict_left_mono)
    also have "\<dots> \<le> x"
      unfolding x using ba(1) bpos by (simp add: divide_right_mono)
    finally show ?thesis .
  qed
  then have lo: "pow2 (?k - 1) < x"
    using pow2_diff [of "bitlen a - 1" "bitlen b"] by (simp add: algebra_simps)
  show ?thesis
  proof (cases "pow2 ?k \<le> x")
    case True
    then have "ilog2 x = ?k" by (simp add: ilog2_def q)
    with True up show ?thesis by simp
  next
    case False
    then have "ilog2 x = ?k - 1" by (simp add: ilog2_def q)
    with False lo show ?thesis by simp
  qed
qed

lemma ilog2_eq:
  assumes "pow2 e \<le> x" "x < pow2 (e + 1)"
  shows "ilog2 x = e"
proof -
  have "0 < x" using assms(1) pow2_pos [of e] by linarith
  from ilog2_bounds [OF this] assms show ?thesis
    by (metis pow2_unique)
qed

lemma pow2_add: "pow2 (a + b) = pow2 a * pow2 b"
  unfolding pow2_powi by (simp add: power_int_add)


lemma ilog2_ge: "pow2 n \<le> x \<Longrightarrow> n \<le> ilog2 x"
proof (rule ccontr)
  assume x: "pow2 n \<le> x" and "\<not> n \<le> ilog2 x"
  then have "pow2 (ilog2 x + 1) \<le> pow2 n" by (simp add: pow2_mono)
  moreover have "0 < x" using x pow2_pos [of n] by linarith
  ultimately show False using ilog2_bounds [of x] x by linarith
qed

lemma pow2_shift:
  "pow2 (e + k) = pow2 (e - 52) * pow2 (k + 52)"
  using pow2_add [of "e - 52" "k + 52"] by simp

subsection \<open>Rounding to an integer and to binary64\<close>

lemma roundHalfEven_near:
  assumes "\<bar>y - of_int m\<bar> < 1 / 2"
  shows "roundHalfEven y = m"
proof -
  have 1: "of_int m - 1 / 2 < y" and 2: "y < of_int m + 1 / 2"
    using assms by linarith+
  consider "\<lfloor>y\<rfloor> = m" | "\<lfloor>y\<rfloor> = m - 1"
  proof -
    have "of_int (m - 1) \<le> y" using 1 by simp
    then have "m - 1 \<le> \<lfloor>y\<rfloor>" by (simp only: le_floor_iff)
    moreover have "y < of_int (m + 1)" using 2 by simp
    then have "\<lfloor>y\<rfloor> < m + 1" by (simp only: floor_less_iff)
    ultimately show ?thesis using that by linarith
  qed
  then show ?thesis
  proof cases
    case 1
    have "y - of_int m < 1 / 2" using 2 by simp
    then show ?thesis by (simp add: roundHalfEven_def Let_def 1)
  next
    case 2
    have "y - of_int (m - 1) > 1 / 2" using 1 by simp
    then show ?thesis by (simp add: roundHalfEven_def Let_def 2)
  qed
qed

lemma round64_normal:
  assumes "pow2 e \<le> x" "x < pow2 (e + 1)" "- 1022 \<le> e"
    and "\<bar>x / pow2 (e - 52) - of_int m\<bar> < 1 / 2"
    and "of_int m * pow2 (e - 52) < pow2 1024"
  shows "round64 x = Fin (of_int m * pow2 (e - 52))"
proof -
  have x0: "x \<noteq> 0" using assms(1) pow2_pos [of e] by linarith
  have e: "max (ilog2 x) (- 1022) = e"
    using ilog2_eq [OF assms(1,2)] assms(3) by simp
  have r: "roundHalfEven (x / pow2 (e - 52)) = m"
    using assms(4) by (rule roundHalfEven_near)
  show ?thesis
    using x0 assms(5) by (simp add: round64_def Let_def e r)
qed

lemma roundHalfEven_err: "\<bar>of_int (roundHalfEven y) - y\<bar> \<le> 1 / 2"
proof -
  have "of_int \<lfloor>y\<rfloor> \<le> y" "y < of_int \<lfloor>y\<rfloor> + 1" by linarith+
  then show ?thesis
    by (auto simp: roundHalfEven_def Let_def)
qed


lemma round64_unfold:
  assumes "x \<noteq> 0"
  shows "round64 x =
    (if of_int (roundHalfEven (x / pow2 (max (ilog2 x) (- 1022) - 52)))
          * pow2 (max (ilog2 x) (- 1022) - 52) \<ge> pow2 1024 then Infty
     else Fin (of_int (roundHalfEven (x / pow2 (max (ilog2 x) (- 1022) - 52)))
          * pow2 (max (ilog2 x) (- 1022) - 52)))"
  using assms by (simp add: round64_def Let_def)


lemma roundHalfEven_tie:
  assumes "y = of_int f + 1 / 2"
  shows "roundHalfEven y = (if even f then f else f + 1)"
proof -
  have "\<lfloor>y\<rfloor> = f" unfolding assms by linarith
  then show ?thesis by (simp add: roundHalfEven_def Let_def assms)
qed

lemma round64_normal_tie:
  assumes "pow2 e \<le> x" "x < pow2 (e + 1)" "- 1022 \<le> e"
    and "x / pow2 (e - 52) = of_int f + 1 / 2"
    and "m = (if even f then f else f + 1)"
    and "of_int m * pow2 (e - 52) < pow2 1024"
  shows "round64 x = Fin (of_int m * pow2 (e - 52))"
proof -
  have x0: "x \<noteq> 0" using assms(1) pow2_pos [of e] by linarith
  have e: "max (ilog2 x) (- 1022) = e"
    using ilog2_eq [OF assms(1,2)] assms(3) by simp
  have r: "roundHalfEven (x / pow2 (e - 52)) = m"
    using roundHalfEven_tie [OF assms(4)] assms(5) by simp
  show ?thesis
    using x0 assms(6) by (simp add: round64_def Let_def e r)
qed

lemma roundHalfEven_ge: "of_int n \<le> y \<Longrightarrow> n \<le> roundHalfEven y"
proof -
  assume "of_int n \<le> y"
  then have "n \<le> \<lfloor>y\<rfloor>" by (simp only: le_floor_iff)
  then show ?thesis by (simp add: roundHalfEven_def Let_def)
qed

lemma round64_overflow:
  assumes "pow2 1024 \<le> x"
  shows "round64 x = Infty"
proof -
  have x0: "0 < x" using assms pow2_pos [of 1024] by linarith
  then have xn: "x \<noteq> 0" by simp
  have e: "1024 \<le> ilog2 x" using assms by (rule ilog2_ge)
  then have m: "max (ilog2 x) (- 1022) = ilog2 x" by simp
  define u where "u = pow2 (ilog2 x - 52)"
  have u: "0 < u" unfolding u_def by (rule pow2_pos)
  have pe: "pow2 (ilog2 x) = 2 ^ 52 * u"
    using pow2_shift [of "ilog2 x" 0] by (simp add: u_def pow2_nat)
  have "pow2 (ilog2 x) \<le> x" using ilog2_bounds [OF x0] by simp
  then have "2 ^ 52 * u / u \<le> x / u" unfolding pe using u by (intro divide_right_mono) simp_all
  then have "of_int (2 ^ 52) \<le> x / u" using u by simp
  then have "2 ^ 52 \<le> roundHalfEven (x / u)" by (rule roundHalfEven_ge)
  then have "(of_int (2 ^ 52) :: rat) \<le> of_int (roundHalfEven (x / u))"
    by (simp only: of_int_le_iff)
  then have "of_int (2 ^ 52) * u \<le> of_int (roundHalfEven (x / u)) * u"
    using u by (simp only: mult_le_cancel_right_pos)
  then have "pow2 (ilog2 x) \<le> of_int (roundHalfEven (x / u)) * u" unfolding pe by simp
  moreover have "pow2 1024 \<le> pow2 (ilog2 x)" using e by (rule pow2_mono)
  ultimately have "pow2 1024 \<le> of_int (roundHalfEven (x / u)) * u" by linarith
  then show ?thesis
    unfolding round64_unfold [OF xn] m by (simp add: u_def)
qed

lemma round64_candidate_err:
  assumes "x \<noteq> 0"
  shows "\<bar>of_int (roundHalfEven (x / pow2 (max (ilog2 x) (- 1022) - 52)))
            * pow2 (max (ilog2 x) (- 1022) - 52) - x\<bar>
         \<le> pow2 (max (ilog2 x) (- 1022) - 52) / 2"
proof -
  let ?u = "pow2 (max (ilog2 x) (- 1022) - 52)"
  let ?m = "roundHalfEven (x / ?u)"
  have u: "0 < ?u" by (rule pow2_pos)
  have "\<bar>of_int ?m - x / ?u\<bar> \<le> 1 / 2" by (rule roundHalfEven_err)
  then have "\<bar>of_int ?m - x / ?u\<bar> * ?u \<le> 1 / 2 * ?u"
    using u by (simp only: mult_le_cancel_right_pos)
  moreover have "\<bar>of_int ?m - x / ?u\<bar> * ?u = \<bar>(of_int ?m - x / ?u) * ?u\<bar>"
    using u by (simp add: abs_mult)
  moreover have "(of_int ?m - x / ?u) * ?u = of_int ?m * ?u - x"
    using u by (simp add: algebra_simps)
  ultimately show ?thesis by simp
qed

lemma round64_rel:
  assumes lo: "pow2 (- 1022) \<le> x" and hi: "x \<le> pow2 1023"
  obtains y where "round64 x = Fin y"
    and "x * (1 - 1 / 2 ^ 53) \<le> y" and "y \<le> x * (1 + 1 / 2 ^ 53)"
proof -
  have x0: "0 < x" using lo pow2_pos [of "- 1022"] by linarith
  then have xn: "x \<noteq> 0" by simp
  have e: "max (ilog2 x) (- 1022) = ilog2 x"
    using ilog2_ge [OF lo] by simp
  define u where "u = pow2 (ilog2 x - 52)"
  define y where "y = of_int (roundHalfEven (x / u)) * u"
  have err: "\<bar>y - x\<bar> \<le> u / 2"
    using round64_candidate_err [OF xn] unfolding e y_def u_def .
  have "pow2 (ilog2 x - 53) = pow2 (ilog2 x) / pow2 53" by (rule pow2_diff)
  moreover have "pow2 (ilog2 x - 52) = pow2 (ilog2 x) / pow2 52" by (rule pow2_diff)
  ultimately have u2: "u / 2 = pow2 (ilog2 x) * (1 / 2 ^ 53)"
    by (simp add: u_def pow2_nat)
  have "pow2 (ilog2 x) \<le> x" using ilog2_bounds [OF x0] by simp
  then have "pow2 (ilog2 x) * (1 / 2 ^ 53) \<le> x * (1 / 2 ^ 53)"
    by (intro mult_right_mono) simp_all
  then have ub: "u / 2 \<le> x * (1 / 2 ^ 53)" unfolding u2 .
  have ub': "u / 2 \<le> x / 9007199254740992" using ub by simp
  have l: "x * (1 - 1 / 2 ^ 53) \<le> y"
  proof -
    have "x - x / 9007199254740992 \<le> y" using err ub' by linarith
    then show ?thesis by (simp add: algebra_simps)
  qed
  have h: "y \<le> x * (1 + 1 / 2 ^ 53)"
  proof -
    have "y \<le> x + x / 9007199254740992" using err ub' by linarith
    then show ?thesis by (simp add: algebra_simps)
  qed
  have P: "pow2 1024 = 2 * pow2 1023"
    using pow2_add [of 1023 1] by (simp add: pow2_def)
  have "x * (1 + 1 / 2 ^ 53) \<le> pow2 1023 * (1 + 1 / 2 ^ 53)"
    using hi by (intro mult_right_mono) simp_all
  also have "\<dots> < pow2 1024"
    unfolding P using pow2_pos [of 1023] by simp
  finally have "y < pow2 1024" using h by linarith
  then have "round64 x = Fin y"
    unfolding round64_unfold [OF xn] e by (simp add: y_def u_def)
  with l h that show thesis by blast
qed

subsection \<open>The round trip of a magnitude\<close>



subsection \<open>Relative error of a chain of operations\<close>

text \<open>
  \<open>margin_chain\<close> follows the six roundings of the displayed margin,
  \<^verbatim>\<open>((u * (1 + t / 100) - u) / (u * (1 + t / 100))) * 100\<close>, for a target margin \<open>t\<close> and a
  unit cost \<open>u\<close> in the stated ranges, each rounding with relative error at most
  \<open>2\<^sup>-\<^sup>5\<^sup>3\<close>, and bounds the result strictly below \<open>t\<close>.
\<close>

lemma in_range64:
  assumes "1 / 2 ^ 600 \<le> x" "x \<le> 2 ^ 600"
  shows "pow2 (- 1022) \<le> x" "x \<le> pow2 1023"
proof -
  have "pow2 (- 1022) \<le> pow2 (- 600)" by (rule pow2_mono) simp
  also have "\<dots> = 1 / 2 ^ 600" by (simp add: pow2_def)
  finally show "pow2 (- 1022) \<le> x" using assms(1) by linarith
  have "(2::rat) ^ 600 = pow2 600" by (simp add: pow2_def)
  also have "\<dots> \<le> pow2 1023" by (rule pow2_mono) simp
  finally show "x \<le> pow2 1023" using assms(2) by linarith
qed

lemma round64_rel':
  assumes "1 / 2 ^ 600 \<le> x" "x \<le> 2 ^ 600"
  obtains y where "round64 x = Fin y"
    and "x * (1 - 1 / 2 ^ 53) \<le> y" and "y \<le> x * (1 + 1 / 2 ^ 53)"
  using round64_rel [OF in_range64 [OF assms]] by blast

lemma e1_numeric:
  "9 / 10 ^ 8 \<le> e1 ^ 2 - e1 ^ 6 + e1 ^ 3 / 10 ^ 7"
  "e1 ^ 3 * (e1 ^ 2 - 1) < 9 / 10 ^ 15"
  by (simp_all add: e1_def power_divide)

lemma margin_polynomial:
  fixes s :: rat
  assumes "1 / 10 ^ 7 \<le> s"
  shows "e1 ^ 3 * ((1 + s * e1) * e1 ^ 2 - 1) < s * ((1 + s * e1) * e1 ^ 2)"
proof -
  have s0: "0 \<le> s" using assms by simp
  have e3: "0 \<le> e1 ^ 3" by (simp add: e1_def)
  have "s * (1 / 10 ^ 7) \<le> s * s"
    using assms s0 by (intro mult_left_mono) simp_all
  then have "s * (1 / 10 ^ 7) * e1 ^ 3 \<le> s * s * e1 ^ 3"
    using e3 by (intro mult_right_mono)
  then have 1: "s * (e1 ^ 3 / 10 ^ 7) \<le> s * s * e1 ^ 3" by simp
  have "s * (9 / 10 ^ 8) \<le> s * (e1 ^ 2 - e1 ^ 6 + e1 ^ 3 / 10 ^ 7)"
    using e1_numeric(1) s0 by (intro mult_left_mono)
  then have 2: "s * (9 / 10 ^ 8) \<le> s * e1 ^ 2 - s * e1 ^ 6 + s * (e1 ^ 3 / 10 ^ 7)"
    by (simp add: algebra_simps)
  have 3: "9 / 10 ^ 15 \<le> s * (9 / 10 ^ 8)" using assms by simp
  have "e1 ^ 3 * (e1 ^ 2 - 1) + s * e1 ^ 6 < s * e1 ^ 2 + s * s * e1 ^ 3"
    using 1 2 3 e1_numeric(2) by linarith
  moreover have "e1 ^ 3 * ((1 + s * e1) * e1 ^ 2 - 1) = e1 ^ 3 * (e1 ^ 2 - 1) + s * e1 ^ 6"
    by (simp add: algebra_simps power2_eq_square power3_eq_cube power_numeral_reduce)
  moreover have "s * ((1 + s * e1) * e1 ^ 2) = s * e1 ^ 2 + s * s * e1 ^ 3"
    by (simp add: algebra_simps power2_eq_square power3_eq_cube)
  ultimately show ?thesis by simp
qed

lemma round64_e:
  assumes "1 / 2 ^ 600 \<le> x" "x \<le> 2 ^ 600"
  obtains y where "round64 x = Fin y" and "x * e0 \<le> y" and "y \<le> x * e1"
  using round64_rel' [OF assms] unfolding e0_def e1_def by blast

lemma e_numeric:
  "9 / 10 \<le> e0" "e0 \<le> 1" "1 \<le> e1" "e1 \<le> 11 / 10" "0 < e0" "0 < e1"
  "1 + 8 / 100000000 \<le> (1 + 9 / 100000000) * e0"
  "1 + 7 / 100000000 \<le> (1 + 8 / 100000000) * e0"
  by (simp_all add: e0_def e1_def)

lemma small_range:
  fixes x :: rat
  assumes "1 / 2 ^ 90 \<le> x" "x \<le> 2 ^ 90"
  shows "1 / 2 ^ 600 \<le> x" "x \<le> 2 ^ 600"
proof -
  have "(1::rat) / 2 ^ 600 \<le> 1 / 2 ^ 90" by simp
  also note assms(1)
  finally show "1 / 2 ^ 600 \<le> x" .
  note assms(2)
  also have "(2::rat) ^ 90 \<le> 2 ^ 600" by simp
  finally show "x \<le> 2 ^ 600" .
qed

lemma scaled_range:
  fixes x c lo hi :: rat
  assumes "1 / 2 ^ 500 \<le> c" "c \<le> 2 ^ 500" "c * lo \<le> x" "x \<le> c * hi"
    "1 / 2 ^ 90 \<le> lo" "hi \<le> 2 ^ 90"
  shows "1 / 2 ^ 600 \<le> x" "x \<le> 2 ^ 600"
proof -
  have c0: "0 \<le> c"
  proof -
    have "(0::rat) \<le> 1 / 2 ^ 500" by simp
    also note assms(1)
    finally show ?thesis .
  qed
  have lo0: "0 \<le> lo"
  proof -
    have "(0::rat) \<le> 1 / 2 ^ 90" by simp
    also note assms(5)
    finally show ?thesis .
  qed
  have "(1::rat) / 2 ^ 600 \<le> 1 / 2 ^ 500 * (1 / 2 ^ 90)" by simp
  also have "\<dots> \<le> c * lo"
    using assms(1,5) lo0 by (intro mult_mono) simp_all
  also note assms(3)
  finally show "1 / 2 ^ 600 \<le> x" .
  note assms(4)
  also have "c * hi \<le> c * 2 ^ 90"
    using assms(6) c0 by (intro mult_left_mono)
  also have "c * 2 ^ 90 \<le> 2 ^ 500 * 2 ^ 90"
    using assms(2) by (intro mult_right_mono) simp_all
  also have "(2::rat) ^ 500 * 2 ^ 90 \<le> 2 ^ 600" by simp
  finally show "x \<le> 2 ^ 600" .
qed

lemma margin_chain:
  fixes t c :: rat
  assumes t: "1 / 10 ^ 5 \<le> t" "t \<le> 2 ^ 64" and c: "1 / 2 ^ 500 \<le> c" "c \<le> 2 ^ 500"
  obtains a k rp d q g where
    "round64 (t / 100) = Fin a" "0 < a" "round64 (1 + a) = Fin k" "round64 (c * k) = Fin rp"
    "0 < rp" "0 < rp - c" "round64 (rp - c) = Fin d" "round64 (d / rp) = Fin q"
    "round64 (q * 100) = Fin g" "0 < g" "g < t"
proof -
  note en = e_numeric
  define s where "s = t / 100"
  have s: "1 / 10000000 \<le> s" "s \<le> 288230376151711744" using t by (simp_all add: s_def)
  have s0: "0 \<le> s" using s by simp
  have c0: "0 < c"
  proof -
    have "(0::rat) < 1 / 2 ^ 500" by simp
    also note c(1)
    finally show ?thesis .
  qed
  txt \<open>t / 100\<close>
  have "1 / 2 ^ 90 \<le> s" "s \<le> 2 ^ 90" using s by simp_all
  then have "1 / 2 ^ 600 \<le> s" "s \<le> 2 ^ 600" by (rule small_range)+
  then obtain a where a: "round64 s = Fin a" "s * e0 \<le> a" "a \<le> s * e1"
    by (rule round64_e)
  have "s * (9 / 10) \<le> s * e0" using en(1) s0 by (intro mult_left_mono)
  then have alo: "9 / 100000000 \<le> a" using a(2) s(1) by linarith
  have "s * e1 \<le> s * (11 / 10)" using en(4) s0 by (intro mult_left_mono)
  then have ahi: "a \<le> 576460752303423488" using a(3) s(2) by linarith
  txt \<open>1 + t / 100\<close>
  define x2 where "x2 = 1 + a"
  have x2: "1 + 9 / 100000000 \<le> x2" "x2 \<le> 1 + 576460752303423488" "x2 \<le> 1 + s * e1"
    using alo ahi a(3) by (simp_all add: x2_def)
  have "1 / 2 ^ 90 \<le> x2" "x2 \<le> 2 ^ 90" using x2 by simp_all
  then have "1 / 2 ^ 600 \<le> x2" "x2 \<le> 2 ^ 600" by (rule small_range)+
  then obtain k where k: "round64 x2 = Fin k" "x2 * e0 \<le> k" "k \<le> x2 * e1"
    by (rule round64_e)
  have "(1 + 9 / 100000000) * e0 \<le> x2 * e0"
    using x2(1) en(5) by (intro mult_right_mono) simp_all
  then have klo: "1 + 8 / 100000000 \<le> k" using k(2) en(7) by linarith
  have "x2 * e1 \<le> x2 * (11 / 10)"
    using x2(1) en(4) by (intro mult_left_mono) simp_all
  then have khi: "k \<le> 2305843009213693952" using k(3) x2(2) by linarith
  have "x2 * e1 \<le> (1 + s * e1) * e1"
    using x2(3) en(6) by (intro mult_right_mono) simp_all
  then have kM: "k \<le> (1 + s * e1) * e1" using k(3) by linarith
  have k0: "0 < k" using klo by simp
  txt \<open>unitCost * (1 + t / 100)\<close>
  have "1 / 2 ^ 90 \<le> k" "k \<le> 2 ^ 90" using klo khi by simp_all
  from scaled_range [OF c order_refl order_refl this]
  obtain rp where rp: "round64 (c * k) = Fin rp" "c * k * e0 \<le> rp" "rp \<le> c * k * e1"
    by (rule round64_e)
  have "(1 + 8 / 100000000) * e0 \<le> k * e0" using klo en(5) by (intro mult_right_mono) simp_all
  then have "1 + 7 / 100000000 \<le> k * e0" using en(8) by linarith
  then have "c * (1 + 7 / 100000000) \<le> c * (k * e0)" using c0 by (intro mult_left_mono) simp_all
  then have rplo: "c * (1 + 7 / 100000000) \<le> rp" using rp(2) by (simp add: mult.assoc)
  have rp0: "0 < rp" and diff0: "0 < rp - c" using rplo c0 by simp_all
  have "k * e1 \<le> (1 + s * e1) * e1 * e1" using kM en(6) by (intro mult_right_mono) simp_all
  then have "c * (k * e1) \<le> c * ((1 + s * e1) * e1 * e1)" using c0 by (intro mult_left_mono) simp_all
  then have rpM: "rp \<le> c * ((1 + s * e1) * e1 ^ 2)"
    using rp(3) by (simp add: mult.assoc power2_eq_square)
  have "k * e1 \<le> 2305843009213693952 * (11 / 10)"
    using khi en(4,6) k0 by (intro mult_mono) simp_all
  then have "k * e1 \<le> 4611686018427387904" by simp
  then have "c * (k * e1) \<le> c * 4611686018427387904"
    using c0 by (intro mult_left_mono) simp_all
  moreover have "rp \<le> c * (k * e1)" using rp(3) by (simp only: mult.assoc)
  ultimately have rphi: "rp \<le> c * 4611686018427387904" by (rule order_trans [rotated])
  txt \<open>recommendedPrice - unitCost\<close>
  define x4 where "x4 = rp - c"
  have x4lo: "c * (7 / 100000000) \<le> x4" and x4hi: "x4 \<le> c * 4611686018427387904"
    and x4rp: "x4 \<le> rp" and x4rel: "rp * (6 / 100000000) \<le> x4" and x40: "0 < x4"
    using rplo rphi c0 rp0 by (simp_all add: x4_def algebra_simps)
  have "(1::rat) / 2 ^ 90 \<le> 7 / 100000000" "(4611686018427387904::rat) \<le> 2 ^ 90"
    by simp_all
  from scaled_range [OF c x4lo x4hi this]
  obtain d where d: "round64 x4 = Fin d" "x4 * e0 \<le> d" "d \<le> x4 * e1"
    by (rule round64_e)
  have "x4 * (9 / 10) \<le> x4 * e0" using en(1) x40 by (intro mult_left_mono) simp_all
  then have dlo: "rp * (54 / 1000000000) \<le> d" using d(2) x4rel by linarith
  have d0: "0 < d" using dlo rp0 by linarith
  txt \<open>(recommendedPrice - unitCost) / recommendedPrice\<close>
  define w where "w = x4 / rp"
  define x5 where "x5 = d / rp"
  have w0: "0 < w" using x40 rp0 by (simp add: w_def)
  have w1: "w \<le> 1" using x4rp rp0 by (simp add: w_def)
  have x5lo: "54 / 1000000000 \<le> x5"
    unfolding x5_def using dlo rp0 by (simp only: pos_le_divide_eq mult.commute)
  have "d / rp \<le> x4 * e1 / rp" using d(3) rp0 by (intro divide_right_mono) simp_all
  then have x5w: "x5 \<le> w * e1" by (simp add: x5_def w_def)
  have "w * e1 \<le> 1 * (11 / 10)" using w1 w0 en(4,6) by (intro mult_mono) simp_all
  then have x5hi: "x5 \<le> 11 / 10" using x5w by linarith
  have "1 / 2 ^ 90 \<le> x5" "x5 \<le> 2 ^ 90" using x5lo x5hi by simp_all
  then have "1 / 2 ^ 600 \<le> x5" "x5 \<le> 2 ^ 600" by (rule small_range)+
  then obtain q where q: "round64 x5 = Fin q" "x5 * e0 \<le> q" "q \<le> x5 * e1"
    by (rule round64_e)
  have "x5 * (9 / 10) \<le> x5 * e0" using en(1) x5lo by (intro mult_left_mono) simp_all
  then have qlo: "48 / 1000000000 \<le> q" using q(2) x5lo by linarith
  have "x5 * e1 \<le> w * e1 * e1" using x5w en(6) by (intro mult_right_mono) simp_all
  then have qw: "q \<le> w * e1 * e1" using q(3) by linarith
  have "x5 * e1 \<le> 11 / 10 * (11 / 10)" using x5hi x5lo en(4,6) by (intro mult_mono) simp_all
  then have qhi: "q \<le> 121 / 100" using q(3) by linarith
  txt \<open>\<dots> * 100\<close>
  define x6 where "x6 = q * 100"
  have "1 / 2 ^ 90 \<le> x6" "x6 \<le> 2 ^ 90" using qlo qhi by (simp_all add: x6_def)
  then have "1 / 2 ^ 600 \<le> x6" "x6 \<le> 2 ^ 600" by (rule small_range)+
  then obtain g where g: "round64 x6 = Fin g" "x6 * e0 \<le> g" "g \<le> x6 * e1"
    by (rule round64_e)
  have "0 < x6 * e0" using qlo en(5) by (simp add: x6_def)
  then have g0: "0 < g" using g(2) by linarith
  have "q * 100 * e1 \<le> w * e1 * e1 * 100 * e1"
    using qw en(6) by (intro mult_right_mono) simp_all
  then have gw: "g \<le> w * (e1 ^ 3 * 100)"
    using g(3) by (simp add: x6_def power3_eq_cube mult_ac)
  txt \<open>comparison with the target\<close>
  define M where "M = (1 + s * e1) * e1 ^ 2"
  have M1: "1 \<le> M"
  proof -
    have "1 * 1 \<le> (1 + s * e1) * e1 ^ 2"
      using s0 en(3,6) by (intro mult_mono) simp_all
    then show ?thesis by (simp add: M_def)
  qed
  have poly: "e1 ^ 3 * (M - 1) < s * M"
    unfolding M_def using s(1) by (intro margin_polynomial) simp
  have "x4 * M = rp * M - c * M" by (simp add: x4_def algebra_simps)
  then have "x4 * M \<le> (M - 1) * rp" using rpM by (simp add: M_def algebra_simps)
  then have "x4 * M / rp \<le> (M - 1) * rp / rp" using rp0 by (intro divide_right_mono) simp_all
  then have wM: "w * M \<le> M - 1" using rp0 by (simp add: w_def)
  have "g * M \<le> w * (e1 ^ 3 * 100) * M" using gw M1 by (intro mult_right_mono) simp_all
  also have "\<dots> = w * M * (e1 ^ 3 * 100)" by (simp add: mult_ac)
  also have "\<dots> \<le> (M - 1) * (e1 ^ 3 * 100)"
    using wM en(6) by (intro mult_right_mono) simp_all
  also have "\<dots> = e1 ^ 3 * (M - 1) * 100" by (simp add: mult_ac)
  also have "\<dots> < s * M * 100" using poly by simp
  finally have "g * M < s * 100 * M" by (simp add: mult_ac)
  then have "g < s * 100" using M1 by (simp only: mult_less_cancel_right_pos) 
  then have gt: "g < t" by (simp add: s_def)
  show thesis
    using that [of a k rp d q g] a(1) alo k(1) rp(1) rp0 diff0 d(1) q(1) g(1) g0 gt
    by (simp add: s_def x2_def x4_def x5_def x6_def)
qed

subsection \<open>Values of the examples\<close>





lemma round64_1: "round64 (1) = Fin 1"
  using round64_normal [of 0 "1" 4503599627370496]
  by (simp add: pow2_def)

lemma round64_75: "round64 (75) = Fin 75"
  using round64_normal [of 6 "75" 5277655813324800]
  by (simp add: pow2_def)

lemma round64_105: "round64 (105) = Fin 105"
  using round64_normal [of 6 "105" 7388718138654720]
  by (simp add: pow2_def)

lemma round64_500: "round64 (500) = Fin 500"
  using round64_normal [of 8 "500" 8796093022208000]
  by (simp add: pow2_def)

lemma round64_700: "round64 (700) = Fin 700"
  using round64_normal [of 9 "700" 6157265115545600]
  by (simp add: pow2_def)

lemma round64_750: "round64 (750) = Fin 750"
  using round64_normal [of 9 "750" 6597069766656000]
  by (simp add: pow2_def)

lemma round64_1000: "round64 (1000) = Fin 1000"
  using round64_normal [of 9 "1000" 8796093022208000]
  by (simp add: pow2_def)

lemma round64_40_div_100: "round64 (40 / 100) = Fin (3602879701896397 / 9007199254740992)"
  using round64_normal [of "- 2" "40 / 100" 7205759403792794]
  by (simp add: pow2_def)

lemma round64_1_plus_a40: "round64 (1 + 3602879701896397 / 9007199254740992) = Fin (3152519739159347 / 2251799813685248)"
  using round64_normal_tie [of 0 "1 + 3602879701896397 / 9007199254740992" 6305039478318694 6305039478318694]
  by (simp add: pow2_def)

lemma round64_75_times_k40: "round64 (75 * (3152519739159347 / 2251799813685248)) = Fin 105"
  using round64_normal [of 6 "75 * (3152519739159347 / 2251799813685248)" 7388718138654720]
  by (simp add: pow2_def)

lemma round64_30: "round64 (30) = Fin 30"
  using round64_normal [of 4 "30" 8444249301319680]
  by (simp add: pow2_def)

lemma round64_30_div_105: "round64 (30 / 105) = Fin (2573485501354569 / 9007199254740992)"
  using round64_normal [of "- 2" "30 / 105" 5146971002709138]
  by (simp add: pow2_def)

lemma round64_q40_times_100: "round64 (2573485501354569 / 9007199254740992 * 100) = Fin (2010535547933257 / 70368744177664)"
  using round64_normal [of 4 "2573485501354569 / 9007199254740992 * 100" 8042142191733028]
  by (simp add: pow2_def)

lemma round64_1_minus_a40: "round64 (1 - 3602879701896397 / 9007199254740992) = Fin (5404319552844595 / 9007199254740992)"
  using round64_normal [of "- 1" "1 - 3602879701896397 / 9007199254740992" 5404319552844595]
  by (simp add: pow2_def)

lemma round64_75_div_b40: "round64 (75 / (5404319552844595 / 9007199254740992)) = Fin 125"
  using round64_normal [of 6 "75 / (5404319552844595 / 9007199254740992)" 8796093022208000]
  by (simp add: pow2_def)

lemma round64_t7: "round64 (944473296573929 / 9444732965739290427392) = Fin (944473296573929 / 9444732965739290427392)"
  using round64_normal [of "- 24" "944473296573929 / 9444732965739290427392" 7555786372591432]
  by (simp add: pow2_def)

lemma literal_1e_7: "round64 (1 / 10000000) = Fin (944473296573929 / 9444732965739290427392)"
  using round64_normal [of "- 24" "1 / 10000000" 7555786372591432]
  by (simp add: pow2_def)

lemma round64_t7_div_100: "round64 (944473296573929 / 9444732965739290427392 / 100) = Fin (1208925819614629 / 1208925819614629174706176)"
  using round64_normal [of "- 30" "944473296573929 / 9444732965739290427392 / 100" 4835703278458516]
  by (simp add: pow2_def)

lemma round64_1_plus_a7: "round64 (1 + 1208925819614629 / 1208925819614629174706176) = Fin (281474976992131 / 281474976710656)"
  using round64_normal [of 0 "1 + 1208925819614629 / 1208925819614629174706176" 4503599631874096]
  by (simp add: pow2_def)

lemma round64_75_times_k7: "round64 (75 * (281474976992131 / 281474976710656)) = Fin (659706977325307 / 8796093022208)"
  using round64_normal [of 6 "75 * (281474976992131 / 281474976710656)" 5277655818602456]
  by (simp add: pow2_def)

lemma round64_rp7_minus_75: "round64 (659706977325307 / 8796093022208 - 75) = Fin (659707 / 8796093022208)"
  using round64_normal [of "- 24" "659706977325307 / 8796093022208 - 75" 5666839979884544]
  by (simp add: pow2_def)

lemma round64_d7_div_rp7: "round64 (659707 / 8796093022208 / (659706977325307 / 8796093022208)) = Fin (2417851722332887 / 2417851639229258349412352)"
  using round64_normal [of "- 30" "659707 / 8796093022208 / (659706977325307 / 8796093022208)" 4835703444665774]
  by (simp add: pow2_def)

lemma round64_q7_times_100: "round64 (2417851722332887 / 2417851639229258349412352 * 100) = Fin (236118332259071 / 2361183241434822606848)"
  using round64_normal [of "- 24" "2417851722332887 / 2417851639229258349412352 * 100" 7555786632290272]
  by (simp add: pow2_def)

lemma round64_1e306: "round64 (1000000000000000017216064596736454828831087825013238982328892017892380671244575047987920451875459594568606138861698291060311049225532948520696938805711440650122628514669428460356992624968028329550689224175284346730060716088829214255439694630119794546505512415617982143262670862918816362862119154749127262208) = Fin 1000000000000000017216064596736454828831087825013238982328892017892380671244575047987920451875459594568606138861698291060311049225532948520696938805711440650122628514669428460356992624968028329550689224175284346730060716088829214255439694630119794546505512415617982143262670862918816362862119154749127262208"
  using round64_normal [of 1016 "1000000000000000017216064596736454828831087825013238982328892017892380671244575047987920451875459594568606138861698291060311049225532948520696938805711440650122628514669428460356992624968028329550689224175284346730060716088829214255439694630119794546505512415617982143262670862918816362862119154749127262208" 6413338752028713]
  by (simp add: pow2_def)

lemma literal_1e306: "round64 (10 ^ 306) = Fin (1000000000000000017216064596736454828831087825013238982328892017892380671244575047987920451875459594568606138861698291060311049225532948520696938805711440650122628514669428460356992624968028329550689224175284346730060716088829214255439694630119794546505512415617982143262670862918816362862119154749127262208)"
  using round64_normal [of 1016 "10 ^ 306" 6413338752028713]
  by (simp add: pow2_def)

lemma overflow_1e306: "round64 (1000000000000000017216064596736454828831087825013238982328892017892380671244575047987920451875459594568606138861698291060311049225532948520696938805711440650122628514669428460356992624968028329550689224175284346730060716088829214255439694630119794546505512415617982143262670862918816362862119154749127262208 * 1000) = Infty"
  by (rule round64_overflow) (simp add: pow2_def)


section \<open>The pricing functions in binary64 arithmetic: auxiliary facts\<close>

lemma unitSystem64_derived:
  "unitSystem64 (getMaterialDerivedValues64 m) = getUnitSystem (purchaseUnit64 m)"
  by (simp add: getMaterialDerivedValues64_def Let_def)

lemma nonpositive_base_quantity64:
  assumes "is_f64 q" "fle q (fnum 0)"
  shows "\<not> fgt (convertToBaseUnit64 q u) (fnum 0)"
proof (cases q)
  case NaN
  with assms show ?thesis by (simp add: fnum_def)
next
  case (Num s a)
  show ?thesis
  proof (cases a)
    case Infty
    with Num assms show ?thesis
      by (cases s) (simp_all add: fnum_def convertToBaseUnit64_def)
  next
    case (Fin x)
    show ?thesis
    proof (cases s)
      case True
      with Num Fin show ?thesis by (simp add: fnum_def convertToBaseUnit64_def)
    next
      case False
      with Num Fin assms have "x = 0" by (simp add: fnum_def)
      with Num Fin False show ?thesis
        by (simp add: fnum_def convertToBaseUnit64_def round64_def)
    qed
  qed
qed

lemma pricePerBaseUnit64_nonpositive:
  assumes "is_f64 (purchaseQuantity64 m)" "fle (purchaseQuantity64 m) (fnum 0)"
  shows "pricePerBaseUnit64 (getMaterialDerivedValues64 m) = fnum 0"
  using nonpositive_base_quantity64 [OF assms, of "purchaseUnit64 m"]
  by (simp add: getMaterialDerivedValues64_def Let_def)

lemma fmul_zero:
  "fmul (fnum 0) b = (if isFinite b then (case b of Num t a \<Rightarrow> Num t (Fin 0)) else NaN)"
proof (cases b)
  case NaN
  then show ?thesis by (simp add: fnum_def)
next
  case (Num t a)
  then show ?thesis by (cases a) (simp_all add: fnum_def round64_def)
qed

lemma recommendedPrice64_eq:
  "recommendedPrice64 (calculateProductCosts64 p ms) =
     (if fgt (targetMargin64 p) (fnum 0)
      then fmul (unitCost64 (calculateProductCosts64 p ms))
             (fadd (fnum 1) (fdiv (targetMargin64 p) (fnum 100)))
      else unitCost64 (calculateProductCosts64 p ms))
   \<and> (fle (targetMargin64 p) (fnum 0) \<longrightarrow>
        recommendedPrice64 (calculateProductCosts64 p ms)
          = unitCost64 (calculateProductCosts64 p ms))"
proof -
  have "\<not> fgt a b" if "fle a b" for a b
    using that by (cases a; cases b) simp_all
  then show ?thesis
    by (simp add: calculateProductCosts64_def Let_def)
qed

lemma margin64_formula:
  assumes "overrideSalePrice64 p = None"
  shows "margin64 (productWithDerived64 ms p) =
     (if fgt (recommendedPrice64 (calculateProductCosts64 p ms)) (fnum 0)
      then fmul (fdiv (fsub (recommendedPrice64 (calculateProductCosts64 p ms))
                        (unitCost64 (calculateProductCosts64 p ms)))
                  (recommendedPrice64 (calculateProductCosts64 p ms))) (fnum 100)
      else fnum 0)"
  using assms by (simp add: productWithDerived64_def Let_def)

lemma margin64_below_target:
  assumes ov: "overrideSalePrice64 p = None"
    and t: "targetMargin64 p = Num False (Fin t)" "1 / 10 ^ 5 \<le> t" "t \<le> 2 ^ 64"
    and c: "unitCost64 (calculateProductCosts64 p ms) = Num False (Fin c)"
      "1 / 2 ^ 500 \<le> c" "c \<le> 2 ^ 500"
  shows "fgt (targetMargin64 p) (margin64 (productWithDerived64 ms p))
    \<and> fgt (margin64 (productWithDerived64 ms p)) (fnum 0)"
proof -
  obtain a k rp d q g where ch:
    "round64 (t / 100) = Fin a" "0 < a" "round64 (1 + a) = Fin k" "round64 (c * k) = Fin rp"
    "0 < rp" "0 < rp - c" "round64 (rp - c) = Fin d" "round64 (d / rp) = Fin q"
    "round64 (q * 100) = Fin g" "0 < g" "g < t"
    using margin_chain [OF t(2,3) c(2,3)] by blast
  have t0: "0 < t" using t(2) by (simp add: field_simps)
  have a1: "\<bar>1 + a\<bar> = 1 + a" "1 + a \<noteq> 0" "\<not> 1 + a < 0" using ch(2) by simp_all
  have rp: "recommendedPrice64 (calculateProductCosts64 p ms) = Num False (Fin rp)"
    using recommendedPrice64_eq [of p ms] t0 ch(1,3,4) a1
    by (simp add: t(1) c(1) fnum_def Let_def)
  have d1: "\<bar>rp - c\<bar> = rp - c" "rp - c \<noteq> 0" "\<not> rp - c < 0" using ch(6) by simp_all
  have rpn: "rp \<noteq> 0" using ch(5) by simp
  have "margin64 (productWithDerived64 ms p) = Num False (Fin g)"
    unfolding margin64_formula [OF ov] rp c(1)
    using ch(5,7,8,9) d1 rpn by (simp add: fnum_def fsub_def Let_def)
  then show ?thesis using ch(10,11) by (simp add: t(1) fnum_def)
qed

lemmas example64_defs = exampleMaterial64_def exampleRequirement64_def exampleProduct64_def

lemma example64_pricePerBaseUnit:
  "getMaterialDerivedValues64 exampleMaterial64
     = \<lparr> unitSystem64 = Mass, baseQuantity64 = fnum 1000, pricePerBaseUnit64 = fnum 1,
         pricePerGram64 = Some (fnum 1), pricePerKilogram64 = Some (fnum 1000),
         pricePerMilliliter64 = None, pricePerLiter64 = None, pricePerUnit64 = None \<rparr>"
  using round64_1000 round64_1
  by (simp add: getMaterialDerivedValues64_def exampleMaterial64_def convertToBaseUnit64_def
        getUnitSystem_def fnum_def Let_def)

lemma example64_line:
  "getProductMaterialCost64 (Some exampleMaterial64) exampleRequirement64
     = \<lparr> cost64 = fnum 500, valid64 = True, warning64 = None \<rparr>"
  using round64_500
  by (simp add: example64_pricePerBaseUnit exampleRequirement64_def convertToBaseUnit64_def
        getUnitSystem_def fnum_def Let_def)

lemma example64_breakdownLine:
  "breakdownLine64 (materialDictionary64 [exampleMaterial64]) exampleRequirement64
     = \<lparr> lineMaterialId64 = ''m1'', lineCost64 = fnum 500, lineQuantity64 = fnum 500,
         lineUnit64 = G, lineValid64 = True, lineWarning64 = None \<rparr>"
proof -
  have "materialDictionary64 [exampleMaterial64] (materialId64 exampleRequirement64)
      = Some exampleMaterial64"
    by (simp add: materialDictionary64_def exampleMaterial64_def exampleRequirement64_def)
  then have "breakdownLine64 (materialDictionary64 [exampleMaterial64]) exampleRequirement64
      = \<lparr> lineMaterialId64 = materialId64 exampleRequirement64, lineCost64 = fnum 500,
          lineQuantity64 = quantity64 exampleRequirement64,
          lineUnit64 = unit64 exampleRequirement64, lineValid64 = True,
          lineWarning64 = None \<rparr>"
    by (simp add: breakdownLine64_def Let_def example64_line
          del: getProductMaterialCost64.simps)
  then show ?thesis by (simp add: exampleRequirement64_def)
qed

lemma example64_costs:
  "breakdown64 (calculateProductCosts64 (exampleProduct64\<lparr>targetMargin64 := tm\<rparr>)
       [exampleMaterial64])
     = [\<lparr> lineMaterialId64 = ''m1'', lineCost64 = fnum 500, lineQuantity64 = fnum 500,
          lineUnit64 = G, lineValid64 = True, lineWarning64 = None \<rparr>]"
  "totalMaterialCost64 (calculateProductCosts64 (exampleProduct64\<lparr>targetMargin64 := tm\<rparr>)
       [exampleMaterial64]) = fnum 500"
  "totalCost64 (calculateProductCosts64 (exampleProduct64\<lparr>targetMargin64 := tm\<rparr>)
       [exampleMaterial64]) = fnum 750"
  "unitCost64 (calculateProductCosts64 (exampleProduct64\<lparr>targetMargin64 := tm\<rparr>)
       [exampleMaterial64]) = fnum 75"
proof -
  let ?r = "calculateProductCosts64 (exampleProduct64\<lparr>targetMargin64 := tm\<rparr>) [exampleMaterial64]"
  show bd: "breakdown64 ?r
     = [\<lparr> lineMaterialId64 = ''m1'', lineCost64 = fnum 500, lineQuantity64 = fnum 500,
          lineUnit64 = G, lineValid64 = True, lineWarning64 = None \<rparr>]"
    by (simp add: calculateProductCosts64_def exampleProduct64_def Let_def
          example64_breakdownLine)
  have "totalMaterialCost64 ?r
      = foldl (\<lambda>sum item. fadd sum (lineCost64 item)) (fnum 0) (breakdown64 ?r)"
    by (simp add: calculateProductCosts64_def Let_def)
  then show tmc: "totalMaterialCost64 ?r = fnum 500"
    unfolding bd using round64_500 by (simp add: fnum_def)
  have tc: "totalCost64 ?r = fadd (fadd (totalMaterialCost64 ?r) (fnum 200)) (fnum 50)"
    by (simp add: calculateProductCosts64_def exampleProduct64_def Let_def)
  show tc': "totalCost64 ?r = fnum 750"
    unfolding tc tmc using round64_700 round64_750 by (simp add: fnum_def)
  have uc: "unitCost64 ?r = fdiv (totalCost64 ?r) (fnum 10)"
    by (simp add: calculateProductCosts64_def exampleProduct64_def Let_def fnum_def)
  show "unitCost64 ?r = fnum 75"
    unfolding uc tc' using round64_75 by (simp add: fnum_def)
qed

lemma example64_recommendedPrice:
  assumes "0 < t"
  shows "recommendedPrice64 (calculateProductCosts64
           (exampleProduct64\<lparr>targetMargin64 := Num False (Fin t)\<rparr>) [exampleMaterial64])
     = fmul (fnum 75) (fadd (fnum 1) (fdiv (Num False (Fin t)) (fnum 100)))"
proof -
  let ?p = "exampleProduct64\<lparr>targetMargin64 := Num False (Fin t)\<rparr>"
  have "recommendedPrice64 (calculateProductCosts64 ?p [exampleMaterial64])
      = fmul (unitCost64 (calculateProductCosts64 ?p [exampleMaterial64]))
          (fadd (fnum 1) (fdiv (Num False (Fin t)) (fnum 100)))"
    using assms by (simp add: calculateProductCosts64_def Let_def fnum_def)
  then show ?thesis by (simp only: example64_costs)
qed

lemma example64_price_40:
  "recommendedPrice64 (calculateProductCosts64 exampleProduct64 [exampleMaterial64]) = fnum 105"
proof -
  have e: "exampleProduct64 = exampleProduct64\<lparr>targetMargin64 := Num False (Fin 40)\<rparr>"
    by (simp add: exampleProduct64_def fnum_def)
  have a: "fdiv (Num False (Fin 40)) (fnum 100) = Num False (Fin (3602879701896397 / 9007199254740992))"
    using round64_40_div_100 by (simp add: fnum_def)
  have k: "fadd (fnum 1) (Num False (Fin (3602879701896397 / 9007199254740992))) = Num False (Fin (3152519739159347 / 2251799813685248))"
    using round64_1_plus_a40 by (simp add: fnum_def)
  have r: "fmul (fnum 75) (Num False (Fin (3152519739159347 / 2251799813685248))) = fnum 105"
    using round64_75_times_k40 by (simp add: fnum_def)
  have "recommendedPrice64 (calculateProductCosts64
           (exampleProduct64\<lparr>targetMargin64 := Num False (Fin 40)\<rparr>) [exampleMaterial64])
      = fnum 105"
    unfolding example64_recommendedPrice [of 40, simplified] a k r ..
  then show ?thesis using e by simp
qed

lemma example64_margin_on_price_40:
  "fdiv (fnum 75) (fsub (fnum 1) (fdiv (fnum 40) (fnum 100))) = fnum 125"
proof -
  have a: "fdiv (fnum 40) (fnum 100) = Num False (Fin (3602879701896397 / 9007199254740992))"
    using round64_40_div_100 by (simp add: fnum_def)
  have b: "fsub (fnum 1) (Num False (Fin (3602879701896397 / 9007199254740992))) = Num False (Fin (5404319552844595 / 9007199254740992))"
    using round64_1_minus_a40 by (simp add: fnum_def fsub_def)
  have c: "fdiv (fnum 75) (Num False (Fin (5404319552844595 / 9007199254740992))) = fnum 125"
    using round64_75_div_b40 by (simp add: fnum_def)
  show ?thesis unfolding a b c ..
qed

lemma example64_margin_40:
  "margin64 (productWithDerived64 [exampleMaterial64] exampleProduct64)
     = Num False (Fin (2010535547933257 / 70368744177664))"
proof -
  have ov: "overrideSalePrice64 exampleProduct64 = None" by (simp add: exampleProduct64_def)
  have uc: "unitCost64 (calculateProductCosts64 exampleProduct64 [exampleMaterial64]) = fnum 75"
    using example64_costs(4) [of "fnum 40"] by (simp add: exampleProduct64_def)
  have d: "fsub (fnum 105) (fnum 75) = fnum 30"
    using round64_30 by (simp add: fnum_def fsub_def)
  have q: "fdiv (fnum 30) (fnum 105) = Num False (Fin (2573485501354569 / 9007199254740992))"
    using round64_30_div_105 by (simp add: fnum_def)
  have g: "fmul (Num False (Fin (2573485501354569 / 9007199254740992))) (fnum 100) = Num False (Fin (2010535547933257 / 70368744177664))"
    using round64_q40_times_100 by (simp add: fnum_def)
  have p: "fgt (fnum 105) (fnum 0)" by (simp add: fnum_def)
  show ?thesis
    unfolding margin64_formula [OF ov] example64_price_40 uc using p by (simp only: d q g if_True)
qed

lemma example64_price_1e_7:
  "recommendedPrice64 (calculateProductCosts64
       (exampleProduct64\<lparr>targetMargin64 := Num False (Fin (944473296573929 / 9444732965739290427392))\<rparr>) [exampleMaterial64])
     = Num False (Fin (659706977325307 / 8796093022208))"
proof -
  have a: "fdiv (Num False (Fin (944473296573929 / 9444732965739290427392))) (fnum 100) = Num False (Fin (1208925819614629 / 1208925819614629174706176))"
    using round64_t7_div_100 by (simp add: fnum_def)
  have k: "fadd (fnum 1) (Num False (Fin (1208925819614629 / 1208925819614629174706176))) = Num False (Fin (281474976992131 / 281474976710656))"
    using round64_1_plus_a7 by (simp add: fnum_def)
  have r: "fmul (fnum 75) (Num False (Fin (281474976992131 / 281474976710656))) = Num False (Fin (659706977325307 / 8796093022208))"
    using round64_75_times_k7 by (simp add: fnum_def)
  show ?thesis
    unfolding example64_recommendedPrice [of "944473296573929 / 9444732965739290427392", simplified] a k r ..
qed

lemma example64_margin_1e_7:
  "margin64 (productWithDerived64 [exampleMaterial64]
       (exampleProduct64\<lparr>targetMargin64 := Num False (Fin (944473296573929 / 9444732965739290427392))\<rparr>))
     = Num False (Fin (236118332259071 / 2361183241434822606848))"
proof -
  let ?p = "exampleProduct64\<lparr>targetMargin64 := Num False (Fin (944473296573929 / 9444732965739290427392))\<rparr>"
  have ov: "overrideSalePrice64 ?p = None" by (simp add: exampleProduct64_def)
  have d: "fsub (Num False (Fin (659706977325307 / 8796093022208))) (fnum 75) = Num False (Fin (659707 / 8796093022208))"
    using round64_rp7_minus_75 by (simp add: fnum_def fsub_def)
  have q: "fdiv (Num False (Fin (659707 / 8796093022208))) (Num False (Fin (659706977325307 / 8796093022208))) = Num False (Fin (2417851722332887 / 2417851639229258349412352))"
    using round64_d7_div_rp7 by (simp add: fnum_def)
  have g: "fmul (Num False (Fin (2417851722332887 / 2417851639229258349412352))) (fnum 100) = Num False (Fin (236118332259071 / 2361183241434822606848))"
    using round64_q7_times_100 by (simp add: fnum_def)
  have p: "fgt (Num False (Fin (659706977325307 / 8796093022208))) (fnum 0)" by (simp add: fnum_def)
  show ?thesis
    unfolding margin64_formula [OF ov] example64_price_1e_7 example64_costs
    using p by (simp only: d q g if_True)
qed

section \<open>Recommended price\<close>

text \<open>
  Claim C2. The recommended price is the unit cost times \<open>1 + targetMargin / 100\<close> when
  the target margin is positive, and the unit cost when it is not, in exact arithmetic
  and in binary64 arithmetic (where the product and the sum are the rounded ones, and a
  target margin that is NaN also gives the unit cost). This is the markup on cost, not
  the margin on price \<open>unitCost / (1 - targetMargin / 100)\<close>: for the scenario product
  (unit cost 75, target margin 40) the code gives 105, the margin-on-price expression
  gives 125.
\<close>

theorem recommendedPrice_is_markup:
  "(targetMargin p > 0 \<longrightarrow>
      recommendedPrice (calculateProductCosts p ms) =
        unitCost (calculateProductCosts p ms) * (1 + targetMargin p / 100))
   \<and> (targetMargin p \<le> 0 \<longrightarrow>
      recommendedPrice (calculateProductCosts p ms) = unitCost (calculateProductCosts p ms))
   \<and> recommendedPrice64 (calculateProductCosts64 p64 ms64) =
       (if fgt (targetMargin64 p64) (fnum 0)
        then fmul (unitCost64 (calculateProductCosts64 p64 ms64))
               (fadd (fnum 1) (fdiv (targetMargin64 p64) (fnum 100)))
        else unitCost64 (calculateProductCosts64 p64 ms64))
   \<and> (fle (targetMargin64 p64) (fnum 0) \<longrightarrow>
        recommendedPrice64 (calculateProductCosts64 p64 ms64)
          = unitCost64 (calculateProductCosts64 p64 ms64))
   \<and> recommendedPrice64 (calculateProductCosts64 exampleProduct64 [exampleMaterial64])
        = fnum 105
   \<and> fdiv (unitCost64 (calculateProductCosts64 exampleProduct64 [exampleMaterial64]))
         (fsub (fnum 1) (fdiv (targetMargin64 exampleProduct64) (fnum 100)))
        = fnum 125"
proof -
  have r: "recommendedPrice (calculateProductCosts p ms) =
      (if targetMargin p > 0
       then unitCost (calculateProductCosts p ms) * (1 + targetMargin p / 100)
       else unitCost (calculateProductCosts p ms))"
    by (simp add: calculateProductCosts_def Let_def)
  have uc: "unitCost64 (calculateProductCosts64 exampleProduct64 [exampleMaterial64]) = fnum 75"
    using example64_costs(4) [of "fnum 40"] by (simp add: exampleProduct64_def)
  have t: "targetMargin64 exampleProduct64 = fnum 40" by (simp add: exampleProduct64_def)
  have m: "fdiv (unitCost64 (calculateProductCosts64 exampleProduct64 [exampleMaterial64]))
         (fsub (fnum 1) (fdiv (targetMargin64 exampleProduct64) (fnum 100))) = fnum 125"
    unfolding uc t by (rule example64_margin_on_price_40)
  have r1: "targetMargin p > 0 \<longrightarrow>
      recommendedPrice (calculateProductCosts p ms) =
        unitCost (calculateProductCosts p ms) * (1 + targetMargin p / 100)"
    and r2: "targetMargin p \<le> 0 \<longrightarrow>
      recommendedPrice (calculateProductCosts p ms) = unitCost (calculateProductCosts p ms)"
    using r by simp_all
  show ?thesis
    using r1 r2 recommendedPrice64_eq [of p64 ms64] example64_price_40 m
    by blast
qed

theorem recommendedPrice_is_markup_witness:
  "targetMargin exampleProduct > 0
   \<and> unitCost (calculateProductCosts exampleProduct [exampleMaterial]) = 75
   \<and> recommendedPrice (calculateProductCosts exampleProduct [exampleMaterial])
        = 75 * (1 + 40 / 100)
   \<and> targetMargin (exampleProduct\<lparr>targetMargin := - 5\<rparr>) \<le> 0
   \<and> recommendedPrice
        (calculateProductCosts (exampleProduct\<lparr>targetMargin := - 5\<rparr>) [exampleMaterial])
        = 75
   \<and> fle (targetMargin64 (exampleProduct64\<lparr>targetMargin64 := Num True (Fin 5)\<rparr>)) (fnum 0)
   \<and> recommendedPrice64
        (calculateProductCosts64 (exampleProduct64\<lparr>targetMargin64 := Num True (Fin 5)\<rparr>)
           [exampleMaterial64])
        = fnum 75
   \<and> fgt (targetMargin64 exampleProduct64) (fnum 0)
   \<and> recommendedPrice64 (calculateProductCosts64 exampleProduct64 [exampleMaterial64])
        = fmul (fnum 75) (fadd (fnum 1) (fdiv (fnum 40) (fnum 100)))"
proof -
  have uc: "unitCost64 (calculateProductCosts64 exampleProduct64 [exampleMaterial64]) = fnum 75"
    using example64_costs(4) [of "fnum 40"] by (simp add: exampleProduct64_def)
  have t: "targetMargin64 exampleProduct64 = fnum 40" by (simp add: exampleProduct64_def)
  have g: "fgt (fnum 40) (fnum 0)" "fle (Num True (Fin 5)) (fnum 0)"
    by (simp_all add: fnum_def)
  note T1 = recommendedPrice_is_markup
      [of exampleProduct "[exampleMaterial]" exampleProduct64 "[exampleMaterial64]"]
  note T2 = recommendedPrice_is_markup
      [of "exampleProduct\<lparr>targetMargin := - 5\<rparr>" "[exampleMaterial]"
          "exampleProduct64\<lparr>targetMargin64 := Num True (Fin 5)\<rparr>" "[exampleMaterial64]"]
  have p1: "targetMargin exampleProduct > 0"
    and p2: "targetMargin (exampleProduct\<lparr>targetMargin := - 5\<rparr>) \<le> 0"
    by (simp_all add: exampleProduct_def)
  have u1: "unitCost (calculateProductCosts exampleProduct [exampleMaterial]) = 75"
    by (simp add: example_defs engine_defs)
  have u2: "unitCost (calculateProductCosts (exampleProduct\<lparr>targetMargin := - 5\<rparr>)
      [exampleMaterial]) = 75"
    by (simp add: example_defs engine_defs)
  have tm: "targetMargin exampleProduct = 40" by (simp add: exampleProduct_def)
  from T1 p1 have 1: "recommendedPrice (calculateProductCosts exampleProduct [exampleMaterial])
      = unitCost (calculateProductCosts exampleProduct [exampleMaterial])
        * (1 + targetMargin exampleProduct / 100)"
    by blast
  from T2 p2 have 2: "recommendedPrice
      (calculateProductCosts (exampleProduct\<lparr>targetMargin := - 5\<rparr>) [exampleMaterial])
      = unitCost (calculateProductCosts (exampleProduct\<lparr>targetMargin := - 5\<rparr>)
          [exampleMaterial])"
    by blast
  have t5: "targetMargin64 (exampleProduct64\<lparr>targetMargin64 := Num True (Fin 5)\<rparr>)
      = Num True (Fin 5)"
    by simp
  from T2 g(2) have 3: "recommendedPrice64
      (calculateProductCosts64 (exampleProduct64\<lparr>targetMargin64 := Num True (Fin 5)\<rparr>)
         [exampleMaterial64])
      = unitCost64
          (calculateProductCosts64 (exampleProduct64\<lparr>targetMargin64 := Num True (Fin 5)\<rparr>)
             [exampleMaterial64])"
    unfolding t5 by blast
  from T1 have "recommendedPrice64 (calculateProductCosts64 exampleProduct64 [exampleMaterial64])
      = (if fgt (targetMargin64 exampleProduct64) (fnum 0)
         then fmul (unitCost64 (calculateProductCosts64 exampleProduct64 [exampleMaterial64]))
                (fadd (fnum 1) (fdiv (targetMargin64 exampleProduct64) (fnum 100)))
         else unitCost64 (calculateProductCosts64 exampleProduct64 [exampleMaterial64]))"
    by blast
  then have 4: "recommendedPrice64 (calculateProductCosts64 exampleProduct64 [exampleMaterial64])
      = fmul (fnum 75) (fadd (fnum 1) (fdiv (fnum 40) (fnum 100)))"
    using g(1) by (simp only: uc t if_True)
  show ?thesis
    unfolding 3 example64_costs(4) t5
    using p1 p2 1 2 4 g u1 u2 by (simp add: t tm)
qed

section \<open>Displayed margin\<close>

text \<open>
  Claim C3, as stated, fails in binary64 arithmetic. The scenario product with target
  margin \<^verbatim>\<open>1e-7\<close> (the binary64 value \<open>944473296573929 / 2\<^sup>7\<^sup>3\<close>), no override sale price
  and unit cost 75 has recommended price \<^verbatim>\<open>75.000000075\<close>, which is positive, and the
  displayed margin \<^verbatim>\<open>1.0000000343708552e-7\<close>, which is above the target margin.
\<close>

theorem displayed_margin_below_target_counterexample:
  "round64 (1 / 10000000) = Fin (944473296573929 / 9444732965739290427392)
   \<and> overrideSalePrice64
        (exampleProduct64\<lparr>targetMargin64 := Num False (Fin (944473296573929 / 9444732965739290427392))\<rparr>) = None
   \<and> fgt (Num False (Fin (944473296573929 / 9444732965739290427392))) (fnum 0)
   \<and> unitCost64 (calculateProductCosts64
        (exampleProduct64\<lparr>targetMargin64 := Num False (Fin (944473296573929 / 9444732965739290427392))\<rparr>)
        [exampleMaterial64]) = fnum 75
   \<and> recommendedPrice64 (calculateProductCosts64
        (exampleProduct64\<lparr>targetMargin64 := Num False (Fin (944473296573929 / 9444732965739290427392))\<rparr>)
        [exampleMaterial64]) = Num False (Fin (659706977325307 / 8796093022208))
   \<and> fgt (Num False (Fin (659706977325307 / 8796093022208))) (fnum 0)
   \<and> margin64 (productsWithDerived64
        [exampleProduct64\<lparr>targetMargin64 := Num False (Fin (944473296573929 / 9444732965739290427392))\<rparr>]
        [exampleMaterial64] ! 0) = Num False (Fin (236118332259071 / 2361183241434822606848))
   \<and> fgt (Num False (Fin (236118332259071 / 2361183241434822606848))) (Num False (Fin (944473296573929 / 9444732965739290427392)))
   \<and> \<not> fgt (Num False (Fin (944473296573929 / 9444732965739290427392))) (Num False (Fin (236118332259071 / 2361183241434822606848)))"
  using literal_1e_7 example64_costs(4) [of "Num False (Fin (944473296573929 / 9444732965739290427392))"]
    example64_price_1e_7 example64_margin_1e_7
  by (simp add: productsWithDerived64_def exampleProduct64_def fnum_def)

text \<open>
  Claim C3, amended. For every product without override sale price, the margin shown by
  the presentation layer is \<open>((recommendedPrice - unitCost) / recommendedPrice) * 100\<close>,
  computed in binary64 arithmetic, when the recommended price is positive, and 0
  otherwise. When the target margin is between \<open>10\<^sup>-\<^sup>5\<close> and \<open>2\<^sup>6\<^sup>4\<close> and the unit cost is
  between \<open>2\<^sup>-\<^sup>5\<^sup>0\<^sup>0\<close> and \<open>2\<^sup>5\<^sup>0\<^sup>0\<close>, the shown margin is positive and strictly below the
  target margin.
\<close>

theorem displayed_margin_below_target:
  assumes "i < length products"
    and "overrideSalePrice64 (products ! i) = None"
  shows "margin64 (productsWithDerived64 products ms ! i) =
           (if fgt (recommendedPrice64 (calculateProductCosts64 (products ! i) ms)) (fnum 0)
            then fmul
                   (fdiv (fsub (recommendedPrice64 (calculateProductCosts64 (products ! i) ms))
                               (unitCost64 (calculateProductCosts64 (products ! i) ms)))
                         (recommendedPrice64 (calculateProductCosts64 (products ! i) ms)))
                   (fnum 100)
            else fnum 0)
         \<and> (targetMargin64 (products ! i) = Num False (Fin t)
              \<and> 1 / 10 ^ 5 \<le> t \<and> t \<le> 2 ^ 64
              \<and> unitCost64 (calculateProductCosts64 (products ! i) ms) = Num False (Fin c)
              \<and> 1 / 2 ^ 500 \<le> c \<and> c \<le> 2 ^ 500 \<longrightarrow>
              fgt (targetMargin64 (products ! i))
                  (margin64 (productsWithDerived64 products ms ! i))
              \<and> fgt (margin64 (productsWithDerived64 products ms ! i)) (fnum 0))"
proof -
  have entry: "productsWithDerived64 products ms ! i = productWithDerived64 ms (products ! i)"
    using assms(1) by (simp add: productsWithDerived64_def)
  show ?thesis
    unfolding entry
    using margin64_formula [OF assms(2), of ms]
      margin64_below_target [OF assms(2), of t ms c]
    by blast
qed

theorem displayed_margin_below_target_witness:
  "(0::nat) < length [exampleProduct64]
   \<and> overrideSalePrice64 ([exampleProduct64] ! 0) = None
   \<and> targetMargin64 ([exampleProduct64] ! 0) = Num False (Fin 40)
   \<and> (1 / 10 ^ 5 \<le> (40::rat)) \<and> ((40::rat) \<le> 2 ^ 64)
   \<and> unitCost64 (calculateProductCosts64 ([exampleProduct64] ! 0) [exampleMaterial64])
        = Num False (Fin 75)
   \<and> (1 / 2 ^ 500 \<le> (75::rat)) \<and> ((75::rat) \<le> 2 ^ 500)
   \<and> recommendedPrice64 (calculateProductCosts64 ([exampleProduct64] ! 0) [exampleMaterial64])
        = Num False (Fin 105)
   \<and> margin64 (productsWithDerived64 [exampleProduct64] [exampleMaterial64] ! 0)
        = Num False (Fin (2010535547933257 / 70368744177664))
   \<and> fgt (targetMargin64 ([exampleProduct64] ! 0))
          (margin64 (productsWithDerived64 [exampleProduct64] [exampleMaterial64] ! 0))
   \<and> fgt (margin64 (productsWithDerived64 [exampleProduct64] [exampleMaterial64] ! 0))
          (fnum 0)"
proof -
  have h1: "(0::nat) < length [exampleProduct64]" by simp
  have h2: "overrideSalePrice64 ([exampleProduct64] ! 0) = None"
    by (simp add: exampleProduct64_def)
  have t: "targetMargin64 ([exampleProduct64] ! 0) = Num False (Fin 40)"
    by (simp add: exampleProduct64_def fnum_def)
  have uc: "unitCost64 (calculateProductCosts64 ([exampleProduct64] ! 0) [exampleMaterial64])
      = Num False (Fin 75)"
    using example64_costs(4) [of "fnum 40"] by (simp add: exampleProduct64_def fnum_def)
  have rp: "recommendedPrice64
      (calculateProductCosts64 ([exampleProduct64] ! 0) [exampleMaterial64])
      = Num False (Fin 105)"
    using example64_price_40 by (simp add: fnum_def)
  have mg: "margin64 (productsWithDerived64 [exampleProduct64] [exampleMaterial64] ! 0)
      = Num False (Fin (2010535547933257 / 70368744177664))"
    using example64_margin_40 by (simp add: productsWithDerived64_def)
  have b: "1 / 10 ^ 5 \<le> (40::rat)" "(40::rat) \<le> 2 ^ 64"
    "1 / 2 ^ 500 \<le> (75::rat)" "(75::rat) \<le> 2 ^ 500"
    by simp_all
  from displayed_margin_below_target
      [OF h1 h2, where t = 40 and c = 75 and ms = "[exampleMaterial64]"] t uc b
  have "fgt (targetMargin64 ([exampleProduct64] ! 0))
          (margin64 (productsWithDerived64 [exampleProduct64] [exampleMaterial64] ! 0))
     \<and> fgt (margin64 (productsWithDerived64 [exampleProduct64] [exampleMaterial64] ! 0))
          (fnum 0)"
    by blast
  with h1 h2 t uc rp mg b show ?thesis by blast
qed

section \<open>Round trip of the unit conversions\<close>






section \<open>Materials with a non-positive purchase quantity\<close>

lemma nonpositive_purchase_quantity64_aux:
  assumes "is_f64 (purchaseQuantity64 m)"
    and "fle (purchaseQuantity64 m) (fnum 0)"
    and "getUnitSystem (unit64 r) = getUnitSystem (purchaseUnit64 m)"
  shows "valid64 (getProductMaterialCost64 (Some m) r)
    \<and> warning64 (getProductMaterialCost64 (Some m) r) = None
    \<and> cost64 (getProductMaterialCost64 (Some m) r)
        = fmul (fnum 0) (convertToBaseUnit64 (quantity64 r) (unit64 r))
    \<and> (isFinite (convertToBaseUnit64 (quantity64 r) (unit64 r)) \<longrightarrow>
         strictEq (cost64 (getProductMaterialCost64 (Some m) r)) (fnum 0))
    \<and> (\<not> isFinite (convertToBaseUnit64 (quantity64 r) (unit64 r)) \<longrightarrow>
         cost64 (getProductMaterialCost64 (Some m) r) = NaN)"
proof -
  have c: "cost64 (getProductMaterialCost64 (Some m) r)
      = fmul (fnum 0) (convertToBaseUnit64 (quantity64 r) (unit64 r))"
    and v: "valid64 (getProductMaterialCost64 (Some m) r)"
    and w: "warning64 (getProductMaterialCost64 (Some m) r) = None"
    using assms(3) pricePerBaseUnit64_nonpositive [OF assms(1,2)]
    by (simp_all add: Let_def unitSystem64_derived)
  have "strictEq (fmul (fnum 0) b) (fnum 0)" if "isFinite b" for b
    using that unfolding fmul_zero by (cases b) (simp_all add: fnum_def)
  moreover have "fmul (fnum 0) b = NaN" if "\<not> isFinite b" for b
    using that unfolding fmul_zero by simp
  ultimately show ?thesis using c v w by simp
qed

text \<open>
  Claim C10, as stated, fails in binary64 arithmetic. For a material bought in
  kilograms with purchase quantity 0 and a requirement of \<^verbatim>\<open>1e306\<close> kilograms, the
  requirement in base units is \<^verbatim>\<open>1e306 * 1000\<close>, which overflows to infinity, and the
  cost \<^verbatim>\<open>0 * Infinity\<close> is NaN, with valid true and no warning.
\<close>

theorem nonpositive_purchase_quantity_counterexample:
  "round64 (10 ^ 306) = Fin (1000000000000000017216064596736454828831087825013238982328892017892380671244575047987920451875459594568606138861698291060311049225532948520696938805711440650122628514669428460356992624968028329550689224175284346730060716088829214255439694630119794546505512415617982143262670862918816362862119154749127262208)
   \<and> is_f64 (Num False (Fin (1000000000000000017216064596736454828831087825013238982328892017892380671244575047987920451875459594568606138861698291060311049225532948520696938805711440650122628514669428460356992624968028329550689224175284346730060716088829214255439694630119794546505512415617982143262670862918816362862119154749127262208)))
   \<and> is_f64 (purchaseQuantity64 (exampleMaterial64\<lparr>purchaseQuantity64 := fnum 0\<rparr>))
   \<and> fle (purchaseQuantity64 (exampleMaterial64\<lparr>purchaseQuantity64 := fnum 0\<rparr>)) (fnum 0)
   \<and> getUnitSystem (unit64 \<lparr> materialId64 = ''m1'',
          quantity64 = Num False (Fin (1000000000000000017216064596736454828831087825013238982328892017892380671244575047987920451875459594568606138861698291060311049225532948520696938805711440650122628514669428460356992624968028329550689224175284346730060716088829214255439694630119794546505512415617982143262670862918816362862119154749127262208)), unit64 = Kg \<rparr>)
       = getUnitSystem (purchaseUnit64 (exampleMaterial64\<lparr>purchaseQuantity64 := fnum 0\<rparr>))
   \<and> convertToBaseUnit64 (Num False (Fin (1000000000000000017216064596736454828831087825013238982328892017892380671244575047987920451875459594568606138861698291060311049225532948520696938805711440650122628514669428460356992624968028329550689224175284346730060716088829214255439694630119794546505512415617982143262670862918816362862119154749127262208))) Kg = Num False Infty
   \<and> getProductMaterialCost64 (Some (exampleMaterial64\<lparr>purchaseQuantity64 := fnum 0\<rparr>))
        \<lparr> materialId64 = ''m1'', quantity64 = Num False (Fin (1000000000000000017216064596736454828831087825013238982328892017892380671244575047987920451875459594568606138861698291060311049225532948520696938805711440650122628514669428460356992624968028329550689224175284346730060716088829214255439694630119794546505512415617982143262670862918816362862119154749127262208)), unit64 = Kg \<rparr>
       = \<lparr> cost64 = NaN, valid64 = True, warning64 = None \<rparr>
   \<and> \<not> strictEq NaN (fnum 0)"
proof -
  have a: "is_f64 (Num False (Fin (1000000000000000017216064596736454828831087825013238982328892017892380671244575047987920451875459594568606138861698291060311049225532948520696938805711440650122628514669428460356992624968028329550689224175284346730060716088829214255439694630119794546505512415617982143262670862918816362862119154749127262208)))" using round64_1e306 by simp
  have b: "convertToBaseUnit64 (Num False (Fin (1000000000000000017216064596736454828831087825013238982328892017892380671244575047987920451875459594568606138861698291060311049225532948520696938805711440650122628514669428460356992624968028329550689224175284346730060716088829214255439694630119794546505512415617982143262670862918816362862119154749127262208))) Kg = Num False Infty"
    using overflow_1e306 by (simp add: convertToBaseUnit64_def)
  have c: "pricePerBaseUnit64
      (getMaterialDerivedValues64 (exampleMaterial64\<lparr>purchaseQuantity64 := fnum 0\<rparr>)) = fnum 0"
    by (rule pricePerBaseUnit64_nonpositive) (simp_all add: fnum_def round64_def)
  have us: "purchaseUnit64 exampleMaterial64 = Kg"
    by (simp add: exampleMaterial64_def)
  have nan: "fmul (fnum 0) (Num False Infty) = NaN" by (simp add: fnum_def)
  have d: "getProductMaterialCost64 (Some (exampleMaterial64\<lparr>purchaseQuantity64 := fnum 0\<rparr>))
        \<lparr> materialId64 = ''m1'', quantity64 = Num False (Fin (1000000000000000017216064596736454828831087825013238982328892017892380671244575047987920451875459594568606138861698291060311049225532948520696938805711440650122628514669428460356992624968028329550689224175284346730060716088829214255439694630119794546505512415617982143262670862918816362862119154749127262208)), unit64 = Kg \<rparr>
       = \<lparr> cost64 = NaN, valid64 = True, warning64 = None \<rparr>"
    by (simp add: Let_def unitSystem64_derived us b c nan)
  show ?thesis
    unfolding b d using literal_1e306 a
    by (simp add: exampleMaterial64_def getUnitSystem_def fnum_def round64_def)
qed

text \<open>
  Claim C10, amended. For a material whose purchase quantity is zero or negative and a
  requirement in the same unit system, \<^verbatim>\<open>getProductMaterialCost\<close> returns valid true,
  no warning, and as cost the product of 0 and the requirement's quantity in base
  units: that is zero when this quantity is finite, and NaN when it is infinite or NaN.
  The line is not flagged.
\<close>

theorem nonpositive_purchase_quantity_cost:
  assumes "is_f64 (purchaseQuantity64 m)"
    and "fle (purchaseQuantity64 m) (fnum 0)"
    and "getUnitSystem (unit64 r) = getUnitSystem (purchaseUnit64 m)"
  shows "valid64 (getProductMaterialCost64 (Some m) r)
    \<and> warning64 (getProductMaterialCost64 (Some m) r) = None
    \<and> cost64 (getProductMaterialCost64 (Some m) r)
        = fmul (fnum 0) (convertToBaseUnit64 (quantity64 r) (unit64 r))
    \<and> (isFinite (convertToBaseUnit64 (quantity64 r) (unit64 r)) \<longrightarrow>
         strictEq (cost64 (getProductMaterialCost64 (Some m) r)) (fnum 0))
    \<and> (\<not> isFinite (convertToBaseUnit64 (quantity64 r) (unit64 r)) \<longrightarrow>
         cost64 (getProductMaterialCost64 (Some m) r) = NaN)"
  using assms by (rule nonpositive_purchase_quantity64_aux)

theorem nonpositive_purchase_quantity_cost_witness:
  "is_f64 (purchaseQuantity64 (exampleMaterial64\<lparr>purchaseQuantity64 := Num True (Fin 3)\<rparr>))
   \<and> fle (purchaseQuantity64 (exampleMaterial64\<lparr>purchaseQuantity64 := Num True (Fin 3)\<rparr>))
         (fnum 0)
   \<and> getUnitSystem (unit64 exampleRequirement64)
       = getUnitSystem
           (purchaseUnit64 (exampleMaterial64\<lparr>purchaseQuantity64 := Num True (Fin 3)\<rparr>))
   \<and> isFinite (convertToBaseUnit64 (quantity64 exampleRequirement64)
         (unit64 exampleRequirement64))
   \<and> getProductMaterialCost64
        (Some (exampleMaterial64\<lparr>purchaseQuantity64 := Num True (Fin 3)\<rparr>))
        exampleRequirement64
       = \<lparr> cost64 = fnum 0, valid64 = True, warning64 = None \<rparr>
   \<and> strictEq (fnum 0) (fnum 0)
   \<and> getUnitSystem (unit64 (exampleRequirement64\<lparr>quantity64 := Num False Infty\<rparr>))
       = getUnitSystem
           (purchaseUnit64 (exampleMaterial64\<lparr>purchaseQuantity64 := Num True (Fin 3)\<rparr>))
   \<and> \<not> isFinite (convertToBaseUnit64
         (quantity64 (exampleRequirement64\<lparr>quantity64 := Num False Infty\<rparr>))
         (unit64 (exampleRequirement64\<lparr>quantity64 := Num False Infty\<rparr>)))
   \<and> getProductMaterialCost64
        (Some (exampleMaterial64\<lparr>purchaseQuantity64 := Num True (Fin 3)\<rparr>))
        (exampleRequirement64\<lparr>quantity64 := Num False Infty\<rparr>)
       = \<lparr> cost64 = NaN, valid64 = True, warning64 = None \<rparr>"
proof -
  let ?m = "exampleMaterial64\<lparr>purchaseQuantity64 := Num True (Fin 3)\<rparr>"
  let ?r = "exampleRequirement64\<lparr>quantity64 := Num False Infty\<rparr>"
  have r3: "round64 3 = Fin 3"
    using round64_normal [of 1 3 "3 * 2 ^ 51"] by (simp add: pow2_def)
  have h1: "is_f64 (purchaseQuantity64 ?m)" using r3 by simp
  have h2: "fle (purchaseQuantity64 ?m) (fnum 0)" by (simp add: fnum_def)
  have h3: "getUnitSystem (unit64 exampleRequirement64) = getUnitSystem (purchaseUnit64 ?m)"
    by (simp add: exampleRequirement64_def exampleMaterial64_def getUnitSystem_def)
  have h3': "getUnitSystem (unit64 ?r) = getUnitSystem (purchaseUnit64 ?m)"
    by (simp add: exampleRequirement64_def exampleMaterial64_def getUnitSystem_def)
  have h4: "convertToBaseUnit64 (quantity64 exampleRequirement64) (unit64 exampleRequirement64)
      = Num False (Fin 500)"
    by (simp add: exampleRequirement64_def convertToBaseUnit64_def fnum_def)
  have h4': "convertToBaseUnit64 (quantity64 ?r) (unit64 ?r) = Num False Infty"
    by (simp add: exampleRequirement64_def convertToBaseUnit64_def)
  have z: "fmul (fnum 0) (Num False (Fin 500)) = fnum 0"
    by (simp add: fnum_def round64_def)
  have z': "fmul (fnum 0) (Num False Infty) = NaN"
    by (simp add: fnum_def)
  have 1: "getProductMaterialCost64 (Some ?m) exampleRequirement64
      = \<lparr> cost64 = fnum 0, valid64 = True, warning64 = None \<rparr>"
    using nonpositive_purchase_quantity_cost [OF h1 h2 h3] unfolding h4 z
    by (cases "getProductMaterialCost64 (Some ?m) exampleRequirement64") simp
  have 2: "getProductMaterialCost64 (Some ?m) ?r
      = \<lparr> cost64 = NaN, valid64 = True, warning64 = None \<rparr>"
    using nonpositive_purchase_quantity_cost [OF h1 h2 h3'] unfolding h4' z'
    by (cases "getProductMaterialCost64 (Some ?m) ?r") simp
  show ?thesis
    unfolding 1 2 h4 h4' using h1 h2 h3 h3' by (simp add: fnum_def)
qed

end
